theory Spec2Isabelle
  imports
    Complex_Main
    "HOL-Library.Sublist"
    "HOL-Library.Char_ord"
    "HOL-Library.List_Lexorder"
    "HOL-Library.Finite_Map"
begin

section \<open>Python values as the services receive them\<close>

text \<open>
  Every dictionary the prediction pipeline handles comes out of a JSON decoder
  (\<^verbatim>\<open>request.get_json()\<close>, \<^verbatim>\<open>response.json()\<close>, \<^verbatim>\<open>json.loads\<close>), so a value is a JSON
  value. Python's \<^verbatim>\<open>None\<close> is \<open>JNull\<close>. Integers and floats are kept apart, as Python
  keeps them apart; floats are idealised as reals (no NaN, no rounding, no overflow). A
  dictionary is the list of its items in insertion order; a well-formed one has no key
  twice.
\<close>

datatype json =
    JNull
  | JBool bool
  | JInt int
  | JFloat real
  | JStr string
  | JArr "json list"
  | JObj "(string \<times> json) list"

text \<open>The exceptions the modelled code can meet.\<close>

datatype exn =
  TypeError | AttributeError | KeyError | OverflowError | JSONDecodeError | OtherError

text \<open>Python's truth value of an object, as \<^verbatim>\<open>if x:\<close> and \<^verbatim>\<open>not x\<close> test it.\<close>

fun truthy :: "json \<Rightarrow> bool" where
  "truthy JNull = False"
| "truthy (JBool b) = b"
| "truthy (JInt i) = (i \<noteq> 0)"
| "truthy (JFloat r) = (r \<noteq> 0)"
| "truthy (JStr s) = (s \<noteq> [])"
| "truthy (JArr xs) = (xs \<noteq> [])"
| "truthy (JObj kvs) = (kvs \<noteq> [])"

text \<open>
  The numbers Python's arithmetic accepts among these values: \<^verbatim>\<open>int\<close> and \<^verbatim>\<open>bool\<close> (a
  subclass of \<^verbatim>\<open>int\<close>) on one side, \<^verbatim>\<open>float\<close> on the other. Anything else in \<^verbatim>\<open>x * 0.2\<close> or
  \<^verbatim>\<open>x - y\<close> raises \<^verbatim>\<open>TypeError\<close>.
\<close>

datatype pynum = PInt int | PFloat real

fun as_number :: "json \<Rightarrow> exn + pynum" where
  "as_number (JBool b) = Inr (PInt (if b then 1 else 0))"
| "as_number (JInt i) = Inr (PInt i)"
| "as_number (JFloat r) = Inr (PFloat r)"
| "as_number _ = Inl TypeError"

text \<open>
  An \<^verbatim>\<open>int\<close> that meets a \<^verbatim>\<open>float\<close> in an operation is converted first, and the conversion
  raises \<^verbatim>\<open>OverflowError\<close> when the integer rounds to a magnitude beyond the largest double,
  that is from \<open>2^1024 - 2^970\<close> on.
\<close>

definition float_limit :: int where
  "float_limit = 2 ^ 1024 - 2 ^ 970"

fun to_float :: "pynum \<Rightarrow> exn + real" where
  "to_float (PInt i) = (if float_limit \<le> \<bar>i\<bar> then Inl OverflowError else Inr (real_of_int i))"
| "to_float (PFloat r) = Inr r"

text \<open>The operand of a float operation: a number, converted.\<close>

definition float_operand :: "json \<Rightarrow> exn + real" where
  "float_operand v = (case as_number v of Inl e \<Rightarrow> Inl e | Inr n \<Rightarrow> to_float n)"

text \<open>
  \<^verbatim>\<open>x - y\<close> on numbers: exact on two integers, a float operation as soon as one side is a
  float. \<^verbatim>\<open>abs\<close> keeps the type.
\<close>

fun py_sub :: "pynum \<Rightarrow> pynum \<Rightarrow> exn + pynum" where
  "py_sub (PInt x) (PInt y) = Inr (PInt (x - y))"
| "py_sub a b =
     (case to_float a of
        Inl e \<Rightarrow> Inl e
      | Inr x \<Rightarrow> (case to_float b of Inl e \<Rightarrow> Inl e | Inr y \<Rightarrow> Inr (PFloat (x - y))))"

fun py_abs :: "pynum \<Rightarrow> pynum" where
  "py_abs (PInt x) = PInt \<bar>x\<bar>"
| "py_abs (PFloat x) = PFloat \<bar>x\<bar>"

text \<open>\<^verbatim>\<open>sub in s\<close> on strings.\<close>

fun str_contains :: "string \<Rightarrow> string \<Rightarrow> bool" where
  "str_contains sub [] = (sub = [])"
| "str_contains sub (c # cs) = (prefix sub (c # cs) \<or> str_contains sub cs)"

text \<open>
  \<^verbatim>\<open>key in x\<close> for a string key: key membership on a dictionary, substring test on a
  string, element test on a list, \<^verbatim>\<open>TypeError\<close> on \<^verbatim>\<open>None\<close>, numbers and booleans.
\<close>

fun py_in :: "string \<Rightarrow> json \<Rightarrow> exn + bool" where
  "py_in k (JObj kvs) = Inr (k \<in> set (map fst kvs))"
| "py_in k (JStr s) = Inr (str_contains k s)"
| "py_in k (JArr xs) = Inr (JStr k \<in> set xs)"
| "py_in k _ = Inl TypeError"

text \<open>\<^verbatim>\<open>x[key]\<close> for a string key that \<^verbatim>\<open>key in x\<close> has found.\<close>

fun py_getitem :: "json \<Rightarrow> string \<Rightarrow> exn + json" where
  "py_getitem (JObj kvs) k = (case map_of kvs k of Some v \<Rightarrow> Inr v | None \<Rightarrow> Inl KeyError)"
| "py_getitem _ k = Inl TypeError"

text \<open>\<^verbatim>\<open>x.get(key, default)\<close>: only a dictionary has the method.\<close>

fun py_get :: "json \<Rightarrow> string \<Rightarrow> json \<Rightarrow> exn + json" where
  "py_get (JObj kvs) k d = Inr (case map_of kvs k of Some v \<Rightarrow> v | None \<Rightarrow> d)"
| "py_get _ k d = Inl AttributeError"

section \<open>Score aggregation (\<^verbatim>\<open>prediction-pipeline-controller/main.py\<close>)\<close>

text \<open>
  \<^verbatim>\<open>_calculate_coordination_score\<close>: 0.3 for each of the two predictors that returned a
  truthy result, 0.2 for a truthy Claude analysis, and 0.2 times the analysis's
  \<^verbatim>\<open>confidence\<close> when it has one; capped at 1.0.
\<close>

definition confidence_bonus :: "json \<Rightarrow> exn + real" where
  "confidence_bonus claude4 =
     (if \<not> truthy claude4 then Inr 0
      else case py_in ''confidence'' claude4 of
             Inl e \<Rightarrow> Inl e
           | Inr False \<Rightarrow> Inr 0
           | Inr True \<Rightarrow>
               (case py_getitem claude4 ''confidence'' of
                  Inl e \<Rightarrow> Inl e
                | Inr c \<Rightarrow>
                    (case float_operand c of
                       Inl e \<Rightarrow> Inl e
                     | Inr x \<Rightarrow> Inr (x * 0.2))))"

definition calculate_coordination_score :: "json \<Rightarrow> json \<Rightarrow> json \<Rightarrow> exn + real" where
  "calculate_coordination_score time_presser time_liner claude4 =
     (let score0 = 0;
          score1 = (if truthy time_presser then score0 + 0.3 else score0);
          score2 = (if truthy time_liner then score1 + 0.3 else score1);
          score3 = (if truthy claude4 then score2 + 0.2 else score2)
      in case confidence_bonus claude4 of
           Inl e \<Rightarrow> Inl e
         | Inr b \<Rightarrow> Inr (min (score3 + b) 1.0))"

text \<open>
  \<^verbatim>\<open>_calculate_temporal_coherence\<close>: 0.5 unless both predictors returned a truthy result;
  otherwise one minus the distance of the two \<^verbatim>\<open>prediction.confidence\<close> values, each
  defaulting to 0.5, clamped to [0, 1]. The distance of two integers is an integer, which
  \<^verbatim>\<open>1.0 - confidence_diff\<close> converts.
\<close>

definition prediction_confidence :: "json \<Rightarrow> exn + json" where
  "prediction_confidence r =
     (case py_get r ''prediction'' (JObj []) of
        Inl e \<Rightarrow> Inl e
      | Inr p \<Rightarrow> py_get p ''confidence'' (JFloat 0.5))"

definition calculate_temporal_coherence :: "json \<Rightarrow> json \<Rightarrow> exn + real" where
  "calculate_temporal_coherence time_presser time_liner =
     (if \<not> truthy time_presser \<or> \<not> truthy time_liner then Inr 0.5
      else case prediction_confidence time_presser of
             Inl e \<Rightarrow> Inl e
           | Inr tpc \<Rightarrow>
               (case prediction_confidence time_liner of
                  Inl e \<Rightarrow> Inl e
                | Inr tlc \<Rightarrow>
                    (case as_number tpc of
                       Inl e \<Rightarrow> Inl e
                     | Inr a \<Rightarrow>
                         (case as_number tlc of
                            Inl e \<Rightarrow> Inl e
                          | Inr b \<Rightarrow>
                              (case py_sub a b of
                                 Inl e \<Rightarrow> Inl e
                               | Inr difference \<Rightarrow>
                                   (let confidence_diff = py_abs difference in
                                    case to_float confidence_diff of
                                      Inl e \<Rightarrow> Inl e
                                    | Inr d \<Rightarrow>
                                        (let coherence = 1.0 - d
                                         in Inr (max 0.0 (min 1.0 coherence)))))))))"

section \<open>Library functions the code calls\<close>

text \<open>
  The standard-library functions whose results the code only passes on are parameters of
  the model: \<^verbatim>\<open>json.loads\<close> (which raises \<^verbatim>\<open>JSONDecodeError\<close> on text that is not JSON and
  can raise other exceptions, such as \<^verbatim>\<open>RecursionError\<close>), the renderers \<^verbatim>\<open>json.dumps\<close> uses at
  the leaves (\<^verbatim>\<open>int.__repr__\<close>, \<^verbatim>\<open>float.__repr__\<close>, the quoting and escaping of a string),
  \<^verbatim>\<open>hashlib.md5(...).hexdigest()\<close>, and the builtin \<^verbatim>\<open>str\<close>. Every theorem below holds for
  whatever these functions compute.
\<close>

record pylib =
  json_loads :: "string \<Rightarrow> exn + json"
  int_repr :: "int \<Rightarrow> string"
  float_repr :: "real \<Rightarrow> string"
  encode_basestring :: "string \<Rightarrow> string"
  md5_hexdigest :: "string \<Rightarrow> string"
  py_str :: "json \<Rightarrow> string"

text \<open>\<^verbatim>\<open>sep.join(parts)\<close>.\<close>

fun join :: "string \<Rightarrow> string list \<Rightarrow> string" where
  "join sep [] = []"
| "join sep [x] = x"
| "join sep (x # y # ys) = x @ sep @ join sep (y # ys)"

text \<open>
  \<^verbatim>\<open>json.dumps(value, sort_keys=True)\<close> with the default separators: the items of every
  dictionary, at any depth, are written in the order of their keys.
\<close>

fun dumps :: "pylib \<Rightarrow> json \<Rightarrow> string" where
  "dumps L JNull = ''null''"
| "dumps L (JBool b) = (if b then ''true'' else ''false'')"
| "dumps L (JInt i) = int_repr L i"
| "dumps L (JFloat r) = float_repr L r"
| "dumps L (JStr s) = encode_basestring L s"
| "dumps L (JArr xs) = ''['' @ join '', '' (map (dumps L) xs) @ '']''"
| "dumps L (JObj kvs) =
     ''{'' @ join '', ''
        (map (\<lambda>(k, v). encode_basestring L k @ '': '' @ dumps L v) (sort_key fst kvs)) @ ''}''"

text \<open>\<^verbatim>\<open>s.find(sub, start)\<close>: the lowest index from \<open>start\<close> on where \<open>sub\<close> begins, or -1.\<close>

fun find_at :: "string \<Rightarrow> string \<Rightarrow> nat \<Rightarrow> int" where
  "find_at sub [] i = (if sub = [] then int i else -1)"
| "find_at sub (c # cs) i = (if prefix sub (c # cs) then int i else find_at sub cs (Suc i))"

definition py_find :: "string \<Rightarrow> string \<Rightarrow> nat \<Rightarrow> int" where
  "py_find s sub start = (if length s < start then -1 else find_at sub (drop start s) start)"

text \<open>\<^verbatim>\<open>s[a:b]\<close>: a negative bound counts from the end, and both bounds are clipped.\<close>

definition py_slice :: "string \<Rightarrow> int \<Rightarrow> int \<Rightarrow> string" where
  "py_slice s a b =
     (let n = int (length s);
          a' = (if a < 0 then max 0 (a + n) else min a n);
          b' = (if b < 0 then max 0 (b + n) else min b n)
      in take (nat (b' - a')) (drop (nat a') s))"

section \<open>Input normalisation (\<^verbatim>\<open>dr_lucy_service_fixed.py\<close>)\<close>

text \<open>
  \<^verbatim>\<open>DrLucyFlightMemory.normalize_input\<close>. \<open>normalize_input_try\<close> is the body of its
  \<^verbatim>\<open>try\<close>: a dictionary is returned as it is; a string is parsed as JSON and, when it is
  not JSON, wrapped as the scenario text; any other value is wrapped as its \<^verbatim>\<open>str\<close>. The
  handler of the \<^verbatim>\<open>try\<close> turns every other exception into the scenario \<^verbatim>\<open>"unknown"\<close>.
\<close>

definition normalize_input_try :: "pylib \<Rightarrow> json \<Rightarrow> exn + json" where
  "normalize_input_try L data =
     (case data of
        JObj kvs \<Rightarrow> Inr data
      | JStr s \<Rightarrow>
          (case json_loads L s of
             Inr parsed \<Rightarrow> Inr parsed
           | Inl JSONDecodeError \<Rightarrow> Inr (JObj [(''scenario'', data)])
           | Inl e \<Rightarrow> Inl e)
      | _ \<Rightarrow> Inr (JObj [(''scenario'', JStr (py_str L data))]))"

definition normalize_input :: "pylib \<Rightarrow> json \<Rightarrow> exn + json" where
  "normalize_input L data =
     (case normalize_input_try L data of
        Inr v \<Rightarrow> Inr v
      | Inl e \<Rightarrow> Inr (JObj [(''scenario'', JStr ''unknown'')]))"

section \<open>The prediction pipeline controller\<close>

subsection \<open>Requests, responses, configuration, state\<close>

record prediction_request =
  session_id :: string
  mission_context :: json
  time_presser_priority :: real
  time_liner_priority :: real
  claude4_integration :: bool
  temporal_acceleration :: real
  strategic_horizon :: int

record pipeline_response =
  resp_session_id :: string
  timestamp :: string
  time_presser_prediction :: json
  time_liner_prediction :: json
  claude4_analysis_out :: json
  coordination_score :: real
  temporal_coherence :: real
  pipeline_status :: string

text \<open>
  The fields of \<^verbatim>\<open>PredictionPipelineController\<close> that decide what the pipeline does.
  \<open>claude4_client\<close> says whether the client object was created. The other fields
  (acceleration factor, horizon, timeouts) only travel inside the requests sent out.
\<close>

record controller =
  dr_lucy_endpoint :: "string option"
  dream_commander_endpoint :: "string option"
  claude4_enabled :: bool
  claude4_client :: bool
  cache_ttl :: int

text \<open>
  The calls the controller attempts to the outside. Every function that makes such a call
  returns, next to its result, the calls it has attempted. The two predictor calls of one
  request are started together; the list names Dr Lucy's first.
\<close>

datatype call = Post_dr_lucy | Post_dream_commander | Claude4_create

text \<open>
  The mutable part: \<^verbatim>\<open>prediction_cache\<close>, a dictionary from cache key to the pair of the
  response and the time it was stored, and the calls made so far.
\<close>

record controller_state =
  prediction_cache :: "string \<rightharpoonup> (pipeline_response \<times> real)"
  calls :: "call list"

text \<open>What an HTTP POST to a predictor comes back with.\<close>

datatype http_outcome =
    Response nat "exn + json"  \<comment> \<open>the status, and what \<^verbatim>\<open>response.json()\<close> gives\<close>
  | Transport_error  \<comment> \<open>the request itself raised: timeout, connection refused\<close>

text \<open>
  What one request meets outside the controller: the clock readings, the predictors'
  answers, and the text of Claude's reply (or the exception of the API call).
\<close>

record request_env =
  utc_now :: string
  lookup_time :: real
  dr_lucy_http :: http_outcome
  dream_commander_http :: http_outcome
  claude4_api :: "exn + string"
  fallback_now :: string
  store_time :: real

subsection \<open>Cache key\<close>

definition cache_key :: "string \<Rightarrow> string \<Rightarrow> string" where
  "cache_key sid context_hash_value = ''prediction:'' @ sid @ '':'' @ context_hash_value"

definition context_hash :: "pylib \<Rightarrow> json \<Rightarrow> string" where
  "context_hash L context = md5_hexdigest L (dumps L context)"

subsection \<open>The predictors and the secondary analysis\<close>

definition endpoint_set :: "string option \<Rightarrow> bool" where
  "endpoint_set e = (case e of None \<Rightarrow> False | Some url \<Rightarrow> url \<noteq> [])"

text \<open>
  \<^verbatim>\<open>_call_dr_lucy\<close> and \<^verbatim>\<open>_call_dream_commander\<close> have the same shape: \<^verbatim>\<open>None\<close> without an
  endpoint, the decoded body on status 200, \<^verbatim>\<open>None\<close> on any other status and on any
  exception.
\<close>

definition call_predictor ::
  "call \<Rightarrow> string option \<Rightarrow> http_outcome \<Rightarrow> call list \<times> (exn + json)" where
  "call_predictor post endpoint out =
     (if \<not> endpoint_set endpoint then ([], Inr JNull)
      else ([post],
            case out of
              Response status body \<Rightarrow>
                (if status = 200
                 then (case body of Inr result \<Rightarrow> Inr result | Inl e \<Rightarrow> Inr JNull)
                 else Inr JNull)
            | Transport_error \<Rightarrow> Inr JNull))"

definition call_dr_lucy :: "controller \<Rightarrow> request_env \<Rightarrow> call list \<times> (exn + json)" where
  "call_dr_lucy ctl env = call_predictor Post_dr_lucy (dr_lucy_endpoint ctl) (dr_lucy_http env)"

definition call_dream_commander ::
  "controller \<Rightarrow> request_env \<Rightarrow> call list \<times> (exn + json)" where
  "call_dream_commander ctl env =
     call_predictor Post_dream_commander (dream_commander_endpoint ctl)
       (dream_commander_http env)"

text \<open>
  The parsing at the end of \<^verbatim>\<open>_claude4_analysis\<close>: the text between \<^verbatim>\<open>```json\<close> and the next
  \<^verbatim>\<open>```\<close> when the reply has such a block, the whole reply otherwise; a reply that is not
  JSON becomes a dictionary holding the text, the confidence 0.8 and the time.
\<close>

definition parse_claude_response :: "pylib \<Rightarrow> string \<Rightarrow> string \<Rightarrow> exn + json" where
  "parse_claude_response L now claude_response =
     (let loaded =
            (if str_contains ''```json'' claude_response then
               (let json_start = py_find claude_response ''```json'' 0 + 7;
                    json_end = py_find claude_response ''```'' (nat json_start)
                in json_loads L (py_slice claude_response json_start json_end))
             else json_loads L claude_response)
      in case loaded of
           Inr claude_analysis \<Rightarrow> Inr claude_analysis
         | Inl JSONDecodeError \<Rightarrow>
             Inr (JObj [(''analysis_text'', JStr claude_response),
                        (''confidence'', JFloat 0.8),
                        (''timestamp'', JStr now)])
         | Inl e \<Rightarrow> Inl e)"

text \<open>
  \<^verbatim>\<open>_claude4_analysis\<close>: \<^verbatim>\<open>None\<close> when Claude is disabled or has no client; otherwise the
  API is called, and every exception of the call or of the parsing gives \<^verbatim>\<open>None\<close>.
\<close>

definition claude4_analysis ::
  "pylib \<Rightarrow> controller \<Rightarrow> request_env \<Rightarrow> call list \<times> json" where
  "claude4_analysis L ctl env =
     (if \<not> claude4_enabled ctl \<or> \<not> claude4_client ctl then ([], JNull)
      else ([Claude4_create],
            case claude4_api env of
              Inl e \<Rightarrow> JNull
            | Inr claude_response \<Rightarrow>
                (case parse_claude_response L (fallback_now env) claude_response of
                   Inr claude_analysis \<Rightarrow> claude_analysis
                 | Inl e \<Rightarrow> JNull)))"

subsection \<open>\<^verbatim>\<open>coordinate_predictions\<close>\<close>

text \<open>
  The cache check under the lock: a stored response is returned when the key is in the
  cache and the time since it was stored is below \<^verbatim>\<open>cache_ttl\<close>. An expired entry is left
  in the dictionary.
\<close>

definition request_key :: "pylib \<Rightarrow> prediction_request \<Rightarrow> string" where
  "request_key L req = cache_key (session_id req) (context_hash L (mission_context req))"

definition cache_lookup ::
  "controller \<Rightarrow> controller_state \<Rightarrow> string \<Rightarrow> real \<Rightarrow> pipeline_response option" where
  "cache_lookup ctl st key now =
     (case prediction_cache st key of
        None \<Rightarrow> None
      | Some (cached_result, cache_time) \<Rightarrow>
          (if now - cache_time < real_of_int (cache_ttl ctl) then Some cached_result else None))"

text \<open>
  The fan-out: both predictors are awaited together with \<^verbatim>\<open>return_exceptions=True\<close>, and a
  result that is an exception is replaced by \<^verbatim>\<open>None\<close>.
\<close>

fun absorb :: "exn + json \<Rightarrow> json" where
  "absorb (Inl e) = JNull"
| "absorb (Inr result) = result"

definition fan_out :: "controller \<Rightarrow> request_env \<Rightarrow> call list \<times> (json \<times> json)" where
  "fan_out ctl env =
     (let (lucy_calls, lucy_result) = call_dr_lucy ctl env;
          (dream_calls, dream_result) = call_dream_commander ctl env
      in (lucy_calls @ dream_calls, (absorb lucy_result, absorb dream_result)))"

text \<open>
  The \<^verbatim>\<open>try\<close> block up to the construction of the response, with the calls it has
  attempted. The two score functions are the steps that can raise.
\<close>

definition run_pipeline ::
  "pylib \<Rightarrow> controller \<Rightarrow> prediction_request \<Rightarrow> request_env \<Rightarrow>
   call list \<times> (exn + pipeline_response)" where
  "run_pipeline L ctl req env =
     (let (predictor_calls, (time_presser_result, time_liner_result)) = fan_out ctl env;
          (claude_calls, claude4_result) =
            (if claude4_integration req then claude4_analysis L ctl env else ([], JNull))
      in (predictor_calls @ claude_calls,
          case calculate_coordination_score time_presser_result time_liner_result
                 claude4_result of
            Inl e \<Rightarrow> Inl e
          | Inr score \<Rightarrow>
              (case calculate_temporal_coherence time_presser_result time_liner_result of
                 Inl e \<Rightarrow> Inl e
               | Inr coherence \<Rightarrow>
                   Inr \<lparr> resp_session_id = session_id req,
                         timestamp = utc_now env,
                         time_presser_prediction = time_presser_result,
                         time_liner_prediction = time_liner_result,
                         claude4_analysis_out = claude4_result,
                         coordination_score = score,
                         temporal_coherence = coherence,
                         pipeline_status =
                           (if truthy time_presser_result \<or> truthy time_liner_result
                            then ''completed'' else ''failed'') \<rparr>)))"

text \<open>The response of the \<^verbatim>\<open>except\<close> branch: every field but the status at its default.\<close>

definition error_response :: "prediction_request \<Rightarrow> request_env \<Rightarrow> pipeline_response" where
  "error_response req env =
     \<lparr> resp_session_id = session_id req,
       timestamp = utc_now env,
       time_presser_prediction = JNull,
       time_liner_prediction = JNull,
       claude4_analysis_out = JNull,
       coordination_score = 0.0,
       temporal_coherence = 0.0,
       pipeline_status = ''error'' \<rparr>"

text \<open>
  The whole \<^verbatim>\<open>try\<close>/\<^verbatim>\<open>except\<close>: the calls the block attempted are on record either way;
  the response is stored under the key, with the time of storing, when the block reaches
  the store; the \<^verbatim>\<open>except\<close> branch stores nothing.
\<close>

definition compute_and_store ::
  "pylib \<Rightarrow> controller \<Rightarrow> prediction_request \<Rightarrow> request_env \<Rightarrow> controller_state \<Rightarrow>
   pipeline_response \<times> controller_state" where
  "compute_and_store L ctl req env st =
     (let (attempted, outcome) = run_pipeline L ctl req env;
          st1 = st\<lparr> calls := calls st @ attempted \<rparr>
      in case outcome of
           Inr response \<Rightarrow>
             (response,
              st1\<lparr> prediction_cache :=
                     (prediction_cache st1)(request_key L req \<mapsto> (response, store_time env)) \<rparr>)
         | Inl e \<Rightarrow> (error_response req env, st1))"

definition coordinate_predictions ::
  "pylib \<Rightarrow> controller \<Rightarrow> prediction_request \<Rightarrow> request_env \<Rightarrow> controller_state \<Rightarrow>
   pipeline_response \<times> controller_state" where
  "coordinate_predictions L ctl req env st =
     (case cache_lookup ctl st (request_key L req) (lookup_time env) of
        Some cached_result \<Rightarrow> (cached_result, st)
      | None \<Rightarrow> compute_and_store L ctl req env st)"

subsection \<open>Requests handled at the same time\<close>

text \<open>
  The web server handles each request on its own thread, and the only synchronisation in
  \<^verbatim>\<open>coordinate_predictions\<close> is the lock around the cache check and the lock around the
  store. A request is therefore in one of three phases: it has not yet checked the
  cache; it has missed the cache and is between the two locked regions; it has returned.
  The fan-out and the scoring touch nothing the requests share, so they are taken as one
  step with the store that follows them. A schedule names, step by step, the request that
  moves next.
\<close>

datatype phase = Arrived | In_flight | Returned pipeline_response

definition step_request ::
  "pylib \<Rightarrow> controller \<Rightarrow> (prediction_request \<times> request_env) list \<Rightarrow>
   controller_state \<times> phase list \<Rightarrow> nat \<Rightarrow> controller_state \<times> phase list" where
  "step_request L ctl reqs w i =
     (let (st, phases) = w in
      if length reqs \<le> i \<or> length phases \<le> i then w
      else let (req, env) = reqs ! i in
        case phases ! i of
          Arrived \<Rightarrow>
            (case cache_lookup ctl st (request_key L req) (lookup_time env) of
               Some cached_result \<Rightarrow> (st, phases[i := Returned cached_result])
             | None \<Rightarrow> (st, phases[i := In_flight]))
        | In_flight \<Rightarrow>
            (let (response, st1) = compute_and_store L ctl req env st
             in (st1, phases[i := Returned response]))
        | Returned response \<Rightarrow> w)"

definition run_schedule ::
  "pylib \<Rightarrow> controller \<Rightarrow> (prediction_request \<times> request_env) list \<Rightarrow> nat list \<Rightarrow>
   controller_state \<Rightarrow> controller_state \<times> phase list" where
  "run_schedule L ctl reqs schedule st =
     foldl (step_request L ctl reqs) (st, replicate (length reqs) Arrived) schedule"

section \<open>What two contexts with the same content are\<close>

text \<open>
  The content of a value, with every dictionary read as a finite map from keys to
  contents: the order in which the items were inserted is forgotten, nothing else is. Two
  values have the same keys and values exactly when their contents are equal. (Python's
  \<^verbatim>\<open>==\<close> on dictionaries is coarser only in equating numbers across types, as in
  \<^verbatim>\<open>1 == 1.0 == True\<close>; the content keeps the types apart.)
\<close>

datatype content =
    CNull
  | CBool bool
  | CInt int
  | CFloat real
  | CStr string
  | CArr "content list"
  | CObj "(string, content) fmap"

fun content_of :: "json \<Rightarrow> content" where
  "content_of JNull = CNull"
| "content_of (JBool b) = CBool b"
| "content_of (JInt i) = CInt i"
| "content_of (JFloat r) = CFloat r"
| "content_of (JStr s) = CStr s"
| "content_of (JArr xs) = CArr (map content_of xs)"
| "content_of (JObj kvs) = CObj (fmap_of_list (map (\<lambda>(k, v). (k, content_of v)) kvs))"

text \<open>A value as Python can hold it: no dictionary, at any depth, has a key twice.\<close>

fun wf_json :: "json \<Rightarrow> bool" where
  "wf_json (JArr xs) = list_all wf_json xs"
| "wf_json (JObj kvs) = (distinct (map fst kvs) \<and> list_all (\<lambda>(k, v). wf_json v) kvs)"
| "wf_json _ = True"

section \<open>Notation for the statements, and sample values\<close>

text \<open>
  The calls a pass through the \<^verbatim>\<open>try\<close> block attempts, written out: one to each predictor
  that has an endpoint, and one to Claude when the request asks for the analysis and
  Claude is enabled with a client. This is notation only; the record of calls in the model
  comes from the functions that make them.
\<close>

abbreviation calls_made :: "controller \<Rightarrow> prediction_request \<Rightarrow> call list" where
  "calls_made ctl req \<equiv>
     (if endpoint_set (dr_lucy_endpoint ctl) then [Post_dr_lucy] else []) @
     (if endpoint_set (dream_commander_endpoint ctl) then [Post_dream_commander] else []) @
     (if claude4_integration req \<and> claude4_enabled ctl \<and> claude4_client ctl
      then [Claude4_create] else [])"

text \<open>Requests, configurations, environments and states the examples below are run on.\<close>

abbreviation request_of :: "string \<Rightarrow> json \<Rightarrow> bool \<Rightarrow> prediction_request" where
  "request_of sid context with_claude \<equiv>
     \<lparr> session_id = sid, mission_context = context, time_presser_priority = 0.7,
       time_liner_priority = 0.6, claude4_integration = with_claude, temporal_acceleration = 1.0,
       strategic_horizon = 90 \<rparr>"

abbreviation controller_with_ttl :: "int \<Rightarrow> controller" where
  "controller_with_ttl ttl \<equiv>
     \<lparr> dr_lucy_endpoint = Some ''http://dr-lucy'',
       dream_commander_endpoint = Some ''http://dream-commander'',
       claude4_enabled = True, claude4_client = True, cache_ttl = ttl \<rparr>"

abbreviation env_of ::
  "http_outcome \<Rightarrow> http_outcome \<Rightarrow> exn + string \<Rightarrow> real \<Rightarrow> real \<Rightarrow> request_env" where
  "env_of lucy dream claude t_lookup t_store \<equiv>
     \<lparr> utc_now = ''2025-01-01T00:00:00+00:00'', lookup_time = t_lookup,
       dr_lucy_http = lucy, dream_commander_http = dream, claude4_api = claude,
       fallback_now = ''2025-01-01T00:00:01+00:00'', store_time = t_store \<rparr>"

abbreviation fresh :: controller_state where
  "fresh \<equiv> \<lparr> prediction_cache = Map.empty, calls = [] \<rparr>"

abbreviation holding :: "string \<Rightarrow> pipeline_response \<Rightarrow> real \<Rightarrow> controller_state" where
  "holding key response t \<equiv> \<lparr> prediction_cache = [key \<mapsto> (response, t)], calls = [] \<rparr>"

abbreviation orbit :: json where
  "orbit \<equiv> JObj [(''goal'', JStr ''orbit'')]"

abbreviation down :: request_env where
  "down \<equiv> env_of Transport_error Transport_error (Inl OtherError) 0 0"

abbreviation confident :: "json \<Rightarrow> json" where
  "confident c \<equiv> JObj [(''prediction'', JObj [(''confidence'', c)])]"

abbreviation healthy :: json where
  "healthy \<equiv> confident (JFloat 0.9)"

abbreviation lib_with :: "(string \<Rightarrow> exn + json) \<Rightarrow> pylib" where
  "lib_with loads \<equiv>
     \<lparr> json_loads = loads, int_repr = (\<lambda>i. ''0''), float_repr = (\<lambda>r. ''0.0''),
       encode_basestring = (\<lambda>s. s), md5_hexdigest = (\<lambda>s. s), py_str = (\<lambda>v. ''value'') \<rparr>"

section \<open>The score functions\<close>

lemma float_limit_pos: "1 < float_limit"
  by (simp add: float_limit_def)

lemma float_operand_simps [simp]:
  "float_operand (JFloat r) = Inr r"
  "float_operand (JBool b) = Inr (if b then 1 else 0)"
  "float_operand (JInt i) = (if float_limit \<le> \<bar>i\<bar> then Inl OverflowError else Inr (real_of_int i))"
  "float_operand JNull = Inl TypeError"
  "float_operand (JStr s) = Inl TypeError"
  "float_operand (JArr xs) = Inl TypeError"
  "float_operand (JObj kvs) = Inl TypeError"
  using float_limit_pos by (simp_all add: float_operand_def)

text \<open>
  Claim C1 at the scenario the specification gives: the first two backends succeed (with
  confidence 0.9 and 0.7) and the third gives nothing. The code's score is 0.6, not 0.7.
\<close>

theorem coordination_score_scenario:
  "calculate_coordination_score
     (JObj [(''prediction'', JObj [(''confidence'', JFloat 0.9)])])
     (JObj [(''prediction'', JObj [(''confidence'', JFloat 0.7)])])
     JNull = Inr (3 / 5)
   \<and> (3 / 5 :: real) \<noteq> 7 / 10"
  by (simp add: calculate_coordination_score_def confidence_bonus_def)

lemma score_falsy:
  "\<not> truthy claude4 \<Longrightarrow>
   calculate_coordination_score time_presser time_liner claude4 =
     Inr ((if truthy time_presser then 0.3 else 0) + (if truthy time_liner then 0.3 else 0))"
  by (simp add: calculate_coordination_score_def confidence_bonus_def)

lemma score_dict_without:
  assumes "kvs \<noteq> []" "map_of kvs ''confidence'' = None"
  shows "calculate_coordination_score time_presser time_liner (JObj kvs) =
     Inr ((if truthy time_presser then 0.3 else 0) + (if truthy time_liner then 0.3 else 0) + 0.2)"
proof -
  have "''confidence'' \<notin> fst ` set kvs" using assms(2) by (simp add: map_of_eq_None_iff)
  then show ?thesis
    using assms by (simp add: calculate_coordination_score_def confidence_bonus_def)
qed

lemma score_dict_with:
  assumes "map_of kvs ''confidence'' = Some c"
  shows "calculate_coordination_score time_presser time_liner (JObj kvs) =
     (case float_operand c of
        Inl e \<Rightarrow> Inl e
      | Inr x \<Rightarrow>
          Inr (min ((if truthy time_presser then 0.3 else 0)
                    + (if truthy time_liner then 0.3 else 0) + 0.2 + x * 0.2) 1))"
proof -
  have "(''confidence'', c) \<in> set kvs" using assms by (simp add: map_of_SomeD)
  then have "''confidence'' \<in> fst ` set kvs" "kvs \<noteq> []" by force+
  then show ?thesis
    using assms
    by (simp add: calculate_coordination_score_def confidence_bonus_def split: sum.splits)
qed

text \<open>
  Claim C1, as the code has it. The coordination score has no weight map: the weights are
  the constants 0.3, 0.3 and 0.2 for the two predictors and the Claude analysis, with a
  further 0.2 times the analysis's confidence, and the sum is capped at 1. With \<open>base\<close> the
  0.3 of each predictor that returned a truthy result: a falsy analysis gives \<open>base\<close>; a
  non-empty dictionary without the key \<^verbatim>\<open>confidence\<close>, and a non-empty string or list that
  does not contain \<^verbatim>\<open>confidence\<close>, give \<open>base + 0.2\<close>; a dictionary whose confidence is a
  number \<open>x\<close> (a boolean, a float, an integer within the range of a double) gives
  \<open>min (base + 0.2 + 0.2 * x) 1\<close>. In every other case the function returns no score: it
  raises \<^verbatim>\<open>TypeError\<close> on a confidence that is not a number, on a truthy number or boolean
  as analysis and on a string or list that contains \<^verbatim>\<open>confidence\<close>, and \<^verbatim>\<open>OverflowError\<close>
  on an integer confidence beyond the range of a double.
\<close>

theorem coordination_score_fixed_weights:
  "(\<not> truthy claude4 \<longrightarrow>
      calculate_coordination_score time_presser time_liner claude4 =
        Inr ((if truthy time_presser then 0.3 else 0) + (if truthy time_liner then 0.3 else 0)))
   \<and> (kvs \<noteq> [] \<and> map_of kvs ''confidence'' = None \<longrightarrow>
      calculate_coordination_score time_presser time_liner (JObj kvs) =
        Inr ((if truthy time_presser then 0.3 else 0) + (if truthy time_liner then 0.3 else 0) + 0.2))
   \<and> (map_of kvs ''confidence'' = Some c \<and> float_operand c = Inr x \<longrightarrow>
      calculate_coordination_score time_presser time_liner (JObj kvs) =
        Inr (min ((if truthy time_presser then 0.3 else 0) + (if truthy time_liner then 0.3 else 0)
                  + 0.2 + x * 0.2) 1))
   \<and> (map_of kvs ''confidence'' = Some c \<and> float_operand c = Inl e \<longrightarrow>
      calculate_coordination_score time_presser time_liner (JObj kvs) = Inl e)
   \<and> (s \<noteq> [] \<and> \<not> str_contains ''confidence'' s \<longrightarrow>
      calculate_coordination_score time_presser time_liner (JStr s) =
        Inr ((if truthy time_presser then 0.3 else 0) + (if truthy time_liner then 0.3 else 0) + 0.2))
   \<and> (xs \<noteq> [] \<and> JStr ''confidence'' \<notin> set xs \<longrightarrow>
      calculate_coordination_score time_presser time_liner (JArr xs) =
        Inr ((if truthy time_presser then 0.3 else 0) + (if truthy time_liner then 0.3 else 0) + 0.2))
   \<and> (truthy claude4
        \<and> ((\<exists>b. claude4 = JBool b) \<or> (\<exists>i. claude4 = JInt i) \<or> (\<exists>r. claude4 = JFloat r)
            \<or> (\<exists>s. claude4 = JStr s \<and> str_contains ''confidence'' s)
            \<or> (\<exists>xs. claude4 = JArr xs \<and> JStr ''confidence'' \<in> set xs)) \<longrightarrow>
      calculate_coordination_score time_presser time_liner claude4 = Inl TypeError)
   \<and> (float_operand c = Inr x \<longleftrightarrow>
        c = JFloat x \<or> (c = JBool True \<and> x = 1) \<or> (c = JBool False \<and> x = 0)
        \<or> (\<exists>i. c = JInt i \<and> \<bar>i\<bar> < float_limit \<and> x = real_of_int i))
   \<and> (float_operand c = Inl OverflowError \<longleftrightarrow>
        (\<exists>i. c = JInt i \<and> float_limit \<le> \<bar>i\<bar>))
   \<and> (float_operand c = Inl TypeError \<longleftrightarrow>
        c = JNull \<or> (\<exists>s. c = JStr s) \<or> (\<exists>xs. c = JArr xs) \<or> (\<exists>kvs. c = JObj kvs))"
proof (intro conjI impI)
  show "float_operand c = Inr x \<longleftrightarrow>
        c = JFloat x \<or> (c = JBool True \<and> x = 1) \<or> (c = JBool False \<and> x = 0)
        \<or> (\<exists>i. c = JInt i \<and> \<bar>i\<bar> < float_limit \<and> x = real_of_int i)"
    by (cases c) auto
  show "float_operand c = Inl OverflowError \<longleftrightarrow>
        (\<exists>i. c = JInt i \<and> float_limit \<le> \<bar>i\<bar>)"
    by (cases c) auto
  show "float_operand c = Inl TypeError \<longleftrightarrow>
        c = JNull \<or> (\<exists>s. c = JStr s) \<or> (\<exists>xs. c = JArr xs) \<or> (\<exists>kvs. c = JObj kvs)"
    by (cases c) auto
next
  assume "\<not> truthy claude4"
  then show "calculate_coordination_score time_presser time_liner claude4 =
        Inr ((if truthy time_presser then 0.3 else 0) + (if truthy time_liner then 0.3 else 0))"
    by (rule score_falsy)
next
  assume "kvs \<noteq> [] \<and> map_of kvs ''confidence'' = None"
  then show "calculate_coordination_score time_presser time_liner (JObj kvs) =
        Inr ((if truthy time_presser then 0.3 else 0) + (if truthy time_liner then 0.3 else 0) + 0.2)"
    by (simp add: score_dict_without)
next
  assume "map_of kvs ''confidence'' = Some c \<and> float_operand c = Inr x"
  then show "calculate_coordination_score time_presser time_liner (JObj kvs) =
        Inr (min ((if truthy time_presser then 0.3 else 0) + (if truthy time_liner then 0.3 else 0)
                  + 0.2 + x * 0.2) 1)"
    by (simp add: score_dict_with)
next
  assume "map_of kvs ''confidence'' = Some c \<and> float_operand c = Inl e"
  then show "calculate_coordination_score time_presser time_liner (JObj kvs) = Inl e"
    by (simp add: score_dict_with)
next
  assume "s \<noteq> [] \<and> \<not> str_contains ''confidence'' s"
  then show "calculate_coordination_score time_presser time_liner (JStr s) =
        Inr ((if truthy time_presser then 0.3 else 0) + (if truthy time_liner then 0.3 else 0) + 0.2)"
    by (simp add: calculate_coordination_score_def confidence_bonus_def)
next
  assume "xs \<noteq> [] \<and> JStr ''confidence'' \<notin> set xs"
  then show "calculate_coordination_score time_presser time_liner (JArr xs) =
        Inr ((if truthy time_presser then 0.3 else 0) + (if truthy time_liner then 0.3 else 0) + 0.2)"
    by (simp add: calculate_coordination_score_def confidence_bonus_def)
next
  assume "truthy claude4
        \<and> ((\<exists>b. claude4 = JBool b) \<or> (\<exists>i. claude4 = JInt i) \<or> (\<exists>r. claude4 = JFloat r)
            \<or> (\<exists>s. claude4 = JStr s \<and> str_contains ''confidence'' s)
            \<or> (\<exists>xs. claude4 = JArr xs \<and> JStr ''confidence'' \<in> set xs))"
  then show "calculate_coordination_score time_presser time_liner claude4 = Inl TypeError"
    by (auto simp: calculate_coordination_score_def confidence_bonus_def)
qed

text \<open>Each case at a concrete analysis.\<close>

theorem coordination_score_fixed_weights_witness:
  "\<not> truthy JNull
   \<and> calculate_coordination_score (JObj [(''ok'', JBool True)]) JNull JNull = Inr (3 / 10)
   \<and> map_of [(''analysis'', JStr ''fine'')] ''confidence'' = None
   \<and> calculate_coordination_score (JObj [(''ok'', JBool True)]) JNull
        (JObj [(''analysis'', JStr ''fine'')]) = Inr (1 / 2)
   \<and> map_of [(''confidence'', JFloat 0.5)] ''confidence'' = Some (JFloat 0.5)
   \<and> float_operand (JFloat 0.5) = Inr 0.5
   \<and> calculate_coordination_score (JObj [(''ok'', JBool True)]) (JObj [(''ok'', JBool True)])
        (JObj [(''confidence'', JFloat 0.5)]) = Inr (9 / 10)
   \<and> map_of [(''confidence'', JStr ''high'')] ''confidence'' = Some (JStr ''high'')
   \<and> float_operand (JStr ''high'') = Inl TypeError
   \<and> calculate_coordination_score (JObj [(''ok'', JBool True)]) JNull
        (JObj [(''confidence'', JStr ''high'')]) = Inl TypeError
   \<and> \<not> str_contains ''confidence'' ''fine''
   \<and> calculate_coordination_score (JObj [(''ok'', JBool True)]) JNull (JStr ''fine'')
        = Inr (1 / 2)
   \<and> JStr ''confidence'' \<notin> set [JInt 1]
   \<and> calculate_coordination_score (JObj [(''ok'', JBool True)]) JNull (JArr [JInt 1])
        = Inr (1 / 2)
   \<and> truthy (JInt 5)
   \<and> calculate_coordination_score (JObj [(''ok'', JBool True)]) JNull (JInt 5) = Inl TypeError"
  using coordination_score_fixed_weights
          [of JNull "JObj [(''ok'', JBool True)]" JNull "[(''analysis'', JStr ''fine'')]"
              "JStr ''high''" 0 TypeError "''fine''" "[JInt 1]"]
        coordination_score_fixed_weights
          [of "JInt 5" "JObj [(''ok'', JBool True)]" "JObj [(''ok'', JBool True)]"
              "[(''confidence'', JFloat 0.5)]" "JFloat 0.5" "0.5" TypeError "''fine''" "[JInt 1]"]
        coordination_score_fixed_weights
          [of "JInt 5" "JObj [(''ok'', JBool True)]" JNull
              "[(''confidence'', JStr ''high'')]" "JStr ''high''" 0 TypeError "''fine''" "[JInt 1]"]
  by simp

lemma coherence_both:
  assumes "truthy time_presser" "truthy time_liner"
    and "prediction_confidence time_presser = Inr c1"
    and "prediction_confidence time_liner = Inr c2"
  shows "calculate_temporal_coherence time_presser time_liner =
     (case as_number c1 of
        Inl e \<Rightarrow> Inl e
      | Inr m \<Rightarrow>
          (case as_number c2 of
             Inl e \<Rightarrow> Inl e
           | Inr n \<Rightarrow>
               (case py_sub m n of
                  Inl e \<Rightarrow> Inl e
                | Inr d \<Rightarrow>
                    (case to_float (py_abs d) of
                       Inl e \<Rightarrow> Inl e
                     | Inr z \<Rightarrow> Inr (max 0 (min 1 (1 - z)))))))"
  using assms by (simp add: calculate_temporal_coherence_def split: sum.splits)

lemma as_number_float_operand:
  "as_number c = Inr n \<Longrightarrow> float_operand c = to_float n"
  by (simp add: float_operand_def)

lemma py_sub_float:
  assumes "(\<exists>r. m = PFloat r) \<or> (\<exists>r. n = PFloat r)"
  shows "py_sub m n =
     (case to_float m of
        Inl e \<Rightarrow> Inl e
      | Inr x \<Rightarrow> (case to_float n of Inl e \<Rightarrow> Inl e | Inr y \<Rightarrow> Inr (PFloat (x - y))))"
  using assms by (cases m; cases n) auto

lemma as_number_error: "as_number c = Inl e \<Longrightarrow> e = TypeError"
  by (cases c) auto

lemma prediction_confidence_error: "prediction_confidence r = Inl e \<Longrightarrow> e = AttributeError"
  by (cases r) (auto simp: prediction_confidence_def elim: py_get.elims split: option.splits)

text \<open>
  Claim C8 at two successful results that carry no confidence at all: no successful
  result has a confidence, and the coherence is 1.0, not 0.5.
\<close>

theorem coherence_without_confidence:
  "calculate_temporal_coherence (JObj [(''status'', JStr ''ok'')]) (JObj [(''status'', JStr ''ok'')])
     = Inr 1
   \<and> (1 :: real) \<noteq> 0.5"
  by (simp add: calculate_temporal_coherence_def prediction_confidence_def float_limit_def)

text \<open>
  Claim C8, as the code has it. The coherence is exactly 0.5 whenever fewer than two
  predictors returned a truthy result. A truthy result without a confidence is not
  counted as missing: the confidence of a dictionary without a \<^verbatim>\<open>prediction\<close>, or whose
  \<^verbatim>\<open>prediction\<close> is a dictionary without a \<^verbatim>\<open>confidence\<close>, is 0.5. For two truthy results
  with the confidences \<open>c1\<close> and \<open>c2\<close>, the coherence is
  \<open>max 0 (min 1 (1 - \<bar>c1 - c2\<bar>))\<close> when both are numbers (with one of them a float
  and the other within the range of a double, or both integers whose distance is within
  that range). Otherwise the function returns no coherence: \<^verbatim>\<open>AttributeError\<close> when a result
  or its \<^verbatim>\<open>prediction\<close> is not a dictionary, \<^verbatim>\<open>TypeError\<close> when a confidence is not a
  number, \<^verbatim>\<open>OverflowError\<close> when an integer is beyond the range.
\<close>

theorem coherence_neutral_default:
  "(\<not> truthy time_presser \<or> \<not> truthy time_liner \<longrightarrow>
      calculate_temporal_coherence time_presser time_liner = Inr 0.5)
   \<and> (truthy time_presser \<and> truthy time_liner
        \<and> prediction_confidence time_presser = Inr c1
        \<and> prediction_confidence time_liner = Inr c2 \<longrightarrow>
        (((\<exists>r. c1 = JFloat r) \<or> (\<exists>r. c2 = JFloat r))
           \<and> float_operand c1 = Inr a \<and> float_operand c2 = Inr b \<longrightarrow>
           calculate_temporal_coherence time_presser time_liner
             = Inr (max 0 (min 1 (1 - \<bar>a - b\<bar>))))
        \<and> (as_number c1 = Inr (PInt x) \<and> as_number c2 = Inr (PInt y)
             \<and> \<bar>x - y\<bar> < float_limit \<longrightarrow>
           calculate_temporal_coherence time_presser time_liner
             = Inr (max 0 (min 1 (1 - \<bar>real_of_int x - real_of_int y\<bar>))))
        \<and> (as_number c1 = Inr (PInt x) \<and> as_number c2 = Inr (PInt y)
             \<and> float_limit \<le> \<bar>x - y\<bar> \<longrightarrow>
           calculate_temporal_coherence time_presser time_liner = Inl OverflowError)
        \<and> (((\<exists>r. c1 = JFloat r) \<or> (\<exists>r. c2 = JFloat r))
             \<and> (float_operand c1 = Inl OverflowError \<or> float_operand c2 = Inl OverflowError) \<longrightarrow>
           calculate_temporal_coherence time_presser time_liner = Inl OverflowError)
        \<and> (as_number c1 = Inl TypeError \<or> as_number c2 = Inl TypeError \<longrightarrow>
           calculate_temporal_coherence time_presser time_liner = Inl TypeError))
   \<and> (truthy time_presser \<and> truthy time_liner
        \<and> (prediction_confidence time_presser = Inl e \<or> prediction_confidence time_liner = Inl e)
        \<longrightarrow> calculate_temporal_coherence time_presser time_liner = Inl AttributeError)
   \<and> (map_of kvs ''prediction'' = None \<longrightarrow> prediction_confidence (JObj kvs) = Inr (JFloat 0.5))
   \<and> (map_of kvs ''prediction'' = Some (JObj ps) \<and> map_of ps ''confidence'' = None \<longrightarrow>
        prediction_confidence (JObj kvs) = Inr (JFloat 0.5))
   \<and> (map_of kvs ''prediction'' = Some (JObj ps) \<and> map_of ps ''confidence'' = Some c \<longrightarrow>
        prediction_confidence (JObj kvs) = Inr c)
   \<and> (map_of kvs ''prediction'' = Some p \<and> (\<forall>ps. p \<noteq> JObj ps) \<longrightarrow>
        prediction_confidence (JObj kvs) = Inl AttributeError)
   \<and> ((\<forall>kvs. r \<noteq> JObj kvs) \<longrightarrow> prediction_confidence r = Inl AttributeError)"
proof (intro conjI impI)
  assume "\<not> truthy time_presser \<or> \<not> truthy time_liner"
  then show "calculate_temporal_coherence time_presser time_liner = Inr 0.5"
    by (auto simp: calculate_temporal_coherence_def)
next
  assume P: "truthy time_presser \<and> truthy time_liner
        \<and> prediction_confidence time_presser = Inr c1
        \<and> prediction_confidence time_liner = Inr c2"
  note both = coherence_both[of time_presser time_liner c1 c2]
  {
    assume f: "((\<exists>r. c1 = JFloat r) \<or> (\<exists>r. c2 = JFloat r))
           \<and> float_operand c1 = Inr a \<and> float_operand c2 = Inr b"
    then obtain m n where mn: "as_number c1 = Inr m" "as_number c2 = Inr n"
      by (auto simp: float_operand_def split: sum.splits)
    have tf: "to_float m = Inr a" "to_float n = Inr b"
      using f mn by (simp_all add: as_number_float_operand)
    have "(\<exists>r. m = PFloat r) \<or> (\<exists>r. n = PFloat r)"
      using f mn by auto
    then have "py_sub m n = Inr (PFloat (a - b))"
      using tf by (simp add: py_sub_float)
    then show "calculate_temporal_coherence time_presser time_liner
             = Inr (max 0 (min 1 (1 - \<bar>a - b\<bar>)))"
      using P mn by (simp add: both)
  }
  {
    assume i: "as_number c1 = Inr (PInt x) \<and> as_number c2 = Inr (PInt y)
             \<and> \<bar>x - y\<bar> < float_limit"
    then show "calculate_temporal_coherence time_presser time_liner
             = Inr (max 0 (min 1 (1 - \<bar>real_of_int x - real_of_int y\<bar>)))"
      using P by (simp add: both)
  }
  {
    assume i: "as_number c1 = Inr (PInt x) \<and> as_number c2 = Inr (PInt y)
             \<and> float_limit \<le> \<bar>x - y\<bar>"
    then show "calculate_temporal_coherence time_presser time_liner = Inl OverflowError"
      using P by (simp add: both)
  }
  {
    assume o: "((\<exists>r. c1 = JFloat r) \<or> (\<exists>r. c2 = JFloat r))
             \<and> (float_operand c1 = Inl OverflowError \<or> float_operand c2 = Inl OverflowError)"
    then show "calculate_temporal_coherence time_presser time_liner = Inl OverflowError"
      using P by (cases c1; cases c2) (auto simp: both split: if_splits)
  }
  {
    assume t: "as_number c1 = Inl TypeError \<or> as_number c2 = Inl TypeError"
    then show "calculate_temporal_coherence time_presser time_liner = Inl TypeError"
      using P as_number_error[of c1] as_number_error[of c2] by (auto simp: both split: sum.splits)
  }
next
  assume a: "truthy time_presser \<and> truthy time_liner
        \<and> (prediction_confidence time_presser = Inl e \<or> prediction_confidence time_liner = Inl e)"
  then show "calculate_temporal_coherence time_presser time_liner = Inl AttributeError"
    using prediction_confidence_error[of time_presser] prediction_confidence_error[of time_liner]
    by (auto simp: calculate_temporal_coherence_def split: sum.splits)
next
  assume "map_of kvs ''prediction'' = None"
  then show "prediction_confidence (JObj kvs) = Inr (JFloat 0.5)"
    by (simp add: prediction_confidence_def)
next
  assume "map_of kvs ''prediction'' = Some (JObj ps) \<and> map_of ps ''confidence'' = None"
  then show "prediction_confidence (JObj kvs) = Inr (JFloat 0.5)"
    by (simp add: prediction_confidence_def)
next
  assume "map_of kvs ''prediction'' = Some (JObj ps) \<and> map_of ps ''confidence'' = Some c"
  then show "prediction_confidence (JObj kvs) = Inr c"
    by (simp add: prediction_confidence_def)
next
  assume "map_of kvs ''prediction'' = Some p \<and> (\<forall>ps. p \<noteq> JObj ps)"
  then show "prediction_confidence (JObj kvs) = Inl AttributeError"
    by (cases p) (simp_all add: prediction_confidence_def)
next
  assume "\<forall>kvs. r \<noteq> JObj kvs"
  then show "prediction_confidence r = Inl AttributeError"
    by (cases r) (simp_all add: prediction_confidence_def)
qed

text \<open>
  A failed first predictor; two floats; an integer and a boolean; a confidence that is a
  string; a result that is a list; a first predictor that succeeded without a confidence.
\<close>

theorem coherence_neutral_default_witness:
  "\<not> truthy JNull
   \<and> calculate_temporal_coherence JNull (confident (JFloat 0.9)) = Inr (1 / 2)
   \<and> truthy (confident (JFloat 0.7)) \<and> truthy (confident (JFloat 0.9))
   \<and> prediction_confidence (confident (JFloat 0.7)) = Inr (JFloat 0.7)
   \<and> prediction_confidence (confident (JFloat 0.9)) = Inr (JFloat 0.9)
   \<and> float_operand (JFloat 0.7) = Inr 0.7 \<and> float_operand (JFloat 0.9) = Inr 0.9
   \<and> calculate_temporal_coherence (confident (JFloat 0.7)) (confident (JFloat 0.9)) = Inr (4 / 5)
   \<and> as_number (JInt 3) = Inr (PInt 3) \<and> as_number (JBool True) = Inr (PInt 1)
   \<and> \<bar>3 - 1\<bar> < float_limit
   \<and> calculate_temporal_coherence (confident (JInt 3)) (confident (JBool True)) = Inr 0
   \<and> as_number (JStr ''high'') = Inl TypeError
   \<and> calculate_temporal_coherence (confident (JStr ''high'')) (confident (JFloat 0.9))
       = Inl TypeError
   \<and> prediction_confidence (JArr [JInt 1]) = Inl AttributeError
   \<and> calculate_temporal_coherence (JArr [JInt 1]) (confident (JFloat 0.9)) = Inl AttributeError
   \<and> map_of [(''status'', JStr ''ok'')] ''prediction'' = None
   \<and> prediction_confidence (JObj [(''status'', JStr ''ok'')]) = Inr (JFloat 0.5)
   \<and> calculate_temporal_coherence (JObj [(''status'', JStr ''ok'')]) (confident (JFloat 0.9))
       = Inr (3 / 5)"
proof -
  have pc: "prediction_confidence (confident c) = Inr c" for c
    by (simp add: prediction_confidence_def)
  have tr: "truthy (confident c)" for c by simp
  note falsy = coherence_neutral_default [THEN conjunct1, rule_format]
  note both = coherence_neutral_default [THEN conjunct2, THEN conjunct1, rule_format]
  note floats = both [THEN conjunct1, rule_format]
  note ints = both [THEN conjunct2, THEN conjunct1, rule_format]
  note not_numbers = both [THEN conjunct2, THEN conjunct2, THEN conjunct2, THEN conjunct2, rule_format]
  note no_get = coherence_neutral_default [THEN conjunct2, THEN conjunct2, THEN conjunct1, rule_format]
  note no_prediction =
    coherence_neutral_default [THEN conjunct2, THEN conjunct2, THEN conjunct2, THEN conjunct1, rule_format]
  note not_dict =
    coherence_neutral_default
      [THEN conjunct2, THEN conjunct2, THEN conjunct2, THEN conjunct2, THEN conjunct2,
       THEN conjunct2, THEN conjunct2, rule_format]
  have e1: "calculate_temporal_coherence JNull (confident (JFloat 0.9)) = Inr (1 / 2)"
    using falsy [of JNull "confident (JFloat 0.9)"] by simp
  have "calculate_temporal_coherence (confident (JFloat 0.7)) (confident (JFloat 0.9))
          = Inr (max 0 (min 1 (1 - \<bar>0.7 - 0.9\<bar>)))"
  proof (rule floats)
    show "truthy (confident (JFloat 0.7)) \<and> truthy (confident (JFloat 0.9))
          \<and> prediction_confidence (confident (JFloat 0.7)) = Inr (JFloat 0.7)
          \<and> prediction_confidence (confident (JFloat 0.9)) = Inr (JFloat 0.9)"
      by (simp add: pc)
    show "((\<exists>r. JFloat 0.7 = JFloat r) \<or> (\<exists>r. JFloat 0.9 = JFloat r))
          \<and> float_operand (JFloat 0.7) = Inr 0.7 \<and> float_operand (JFloat 0.9) = Inr 0.9"
      by (intro conjI disjI1 exI [of _ "0.7"]) simp_all
  qed
  then have e2: "calculate_temporal_coherence (confident (JFloat 0.7)) (confident (JFloat 0.9))
          = Inr (4 / 5)"
    by simp
  have lim: "\<bar>3 - 1\<bar> < float_limit" by (simp add: float_limit_def)
  have "calculate_temporal_coherence (confident (JInt 3)) (confident (JBool True))
          = Inr (max 0 (min 1 (1 - \<bar>real_of_int 3 - real_of_int 1\<bar>)))"
  proof (rule ints)
    show "truthy (confident (JInt 3)) \<and> truthy (confident (JBool True))
          \<and> prediction_confidence (confident (JInt 3)) = Inr (JInt 3)
          \<and> prediction_confidence (confident (JBool True)) = Inr (JBool True)"
      by (simp add: pc)
    show "as_number (JInt 3) = Inr (PInt 3) \<and> as_number (JBool True) = Inr (PInt 1)
          \<and> \<bar>3 - 1\<bar> < float_limit"
      using lim by simp
  qed
  then have e3: "calculate_temporal_coherence (confident (JInt 3)) (confident (JBool True)) = Inr 0"
    by simp
  have e4: "calculate_temporal_coherence (confident (JStr ''high'')) (confident (JFloat 0.9))
          = Inl TypeError"
  proof (rule not_numbers)
    show "truthy (confident (JStr ''high'')) \<and> truthy (confident (JFloat 0.9))
          \<and> prediction_confidence (confident (JStr ''high'')) = Inr (JStr ''high'')
          \<and> prediction_confidence (confident (JFloat 0.9)) = Inr (JFloat 0.9)"
      by (simp add: pc)
    show "as_number (JStr ''high'') = Inl TypeError \<or> as_number (JFloat 0.9) = Inl TypeError"
      by simp
  qed
  have e5: "prediction_confidence (JArr [JInt 1]) = Inl AttributeError"
    by (rule not_dict) simp
  have e6: "calculate_temporal_coherence (JArr [JInt 1]) (confident (JFloat 0.9))
          = Inl AttributeError"
    by (rule no_get [of _ _ AttributeError]) (simp add: e5)
  have e7: "prediction_confidence (JObj [(''status'', JStr ''ok'')]) = Inr (JFloat 0.5)"
    by (rule no_prediction) simp
  have "calculate_temporal_coherence (JObj [(''status'', JStr ''ok'')]) (confident (JFloat 0.9))
          = Inr (max 0 (min 1 (1 - \<bar>0.5 - 0.9\<bar>)))"
  proof (rule floats)
    show "truthy (JObj [(''status'', JStr ''ok'')]) \<and> truthy (confident (JFloat 0.9))
          \<and> prediction_confidence (JObj [(''status'', JStr ''ok'')]) = Inr (JFloat 0.5)
          \<and> prediction_confidence (confident (JFloat 0.9)) = Inr (JFloat 0.9)"
      by (simp add: pc e7)
    show "((\<exists>r. JFloat 0.5 = JFloat r) \<or> (\<exists>r. JFloat 0.9 = JFloat r))
          \<and> float_operand (JFloat 0.5) = Inr 0.5 \<and> float_operand (JFloat 0.9) = Inr 0.9"
      by (intro conjI disjI1 exI [of _ "0.5"]) simp_all
  qed
  then have e8: "calculate_temporal_coherence (JObj [(''status'', JStr ''ok'')])
          (confident (JFloat 0.9)) = Inr (3 / 5)"
    by simp
  show ?thesis
    using e1 e2 e3 e4 e5 e6 e7 e8 lim by (simp add: pc)
qed

section \<open>The context hash and the cache key\<close>

lemma insort_key_fst_map:
  assumes "\<And>x. fst (g x) = fst x"
  shows "insort_key fst (g x) (map g xs) = map g (insort_key fst x xs)"
  by (induction xs) (simp_all add: assms)

lemma sort_key_fst_map:
  assumes "\<And>x. fst (g x) = fst x"
  shows "sort_key fst (map g xs) = map g (sort_key fst xs)"
  by (induction xs) (simp_all add: insort_key_fst_map[OF assms])

lemma sorted_keys_unique:
  fixes S T :: "('k::linorder \<times> 'v) list"
  assumes "sorted (map fst S)" "distinct (map fst S)" "sorted (map fst T)" "distinct (map fst T)"
    and "set S = set T"
  shows "S = T"
  using assms
proof (induction S arbitrary: T)
  case Nil
  then show ?case by simp
next
  case (Cons x S')
  from Cons.prems(5) obtain y T' where T: "T = y # T'"
    by (cases T) auto
  have lx: "\<forall>z\<in>set S'. fst x < fst z"
    using Cons.prems(1,2) by (auto simp: less_le)
  have ly: "\<forall>z\<in>set T'. fst y < fst z"
    using Cons.prems(3,4) by (auto simp: T less_le)
  have xy: "x = y"
  proof (rule ccontr)
    assume ne: "x \<noteq> y"
    have "x \<in> set T'" using Cons.prems(5) ne by (auto simp: T)
    then have a: "fst y < fst x" using ly by blast
    have "y \<in> set S'" using Cons.prems(5) ne by (auto simp: T)
    then have "fst x < fst y" using lx by blast
    with a show False by simp
  qed
  have nx: "x \<notin> set S'" using lx by auto
  have ny: "y \<notin> set T'" using ly by auto
  have "set S' = set T'"
    using Cons.prems(5) nx ny by (auto simp: T xy)
  moreover have "sorted (map fst S')" "distinct (map fst S')" "sorted (map fst T')" "distinct (map fst T')"
    using Cons.prems(1-4) by (simp_all add: T)
  ultimately have "S' = T'" by (rule Cons.IH[rotated -1])
  then show ?case by (simp add: T xy)
qed

lemma sort_key_fst_unique:
  fixes A B :: "('k::linorder \<times> 'v) list"
  assumes "distinct (map fst A)" "distinct (map fst B)" "set A = set B"
  shows "sort_key fst A = sort_key fst B"
proof (rule sorted_keys_unique)
  show "sorted (map fst (sort_key fst A))" by simp
  show "sorted (map fst (sort_key fst B))" by simp
  show "distinct (map fst (sort_key fst A))" using assms(1) by (simp add: distinct_map)
  show "distinct (map fst (sort_key fst B))" using assms(2) by (simp add: distinct_map)
  show "set (sort_key fst A) = set (sort_key fst B)" using assms(3) by simp
qed

lemma wf_json_value: "wf_json (JObj kvs) \<Longrightarrow> (k, v) \<in> set kvs \<Longrightarrow> wf_json v"
  by (auto simp: list_all_iff)

lemma content_of_items_transfer:
  assumes dx: "distinct (map fst xs)" and dy: "distinct (map fst ys)"
    and eq: "map_of (map (\<lambda>(k, v). (k, content_of v)) xs) = map_of (map (\<lambda>(k, v). (k, content_of v)) ys)"
    and mem: "(k, v) \<in> set xs"
  shows "\<exists>v'. (k, v') \<in> set ys \<and> content_of v' = content_of v"
proof -
  have "map_of xs k = Some v" using dx mem by simp
  moreover have "map_option content_of (map_of xs k) = map_option content_of (map_of ys k)"
    using fun_cong[OF eq, of k] by (simp add: map_of_map)
  ultimately have "map_option content_of (map_of ys k) = Some (content_of v)"
    by simp
  then obtain v' where "map_of ys k = Some v'" "content_of v' = content_of v"
    by (cases "map_of ys k") auto
  then show ?thesis using map_of_SomeD by fastforce
qed

lemma dumps_content:
  "wf_json a \<Longrightarrow> wf_json b \<Longrightarrow> content_of a = content_of b \<Longrightarrow> dumps L a = dumps L b"
proof (induction a arbitrary: b)
  case JNull
  then show ?case by (cases b) simp_all
next
  case (JBool x)
  then show ?case by (cases b) simp_all
next
  case (JInt x)
  then show ?case by (cases b) simp_all
next
  case (JFloat x)
  then show ?case by (cases b) simp_all
next
  case (JStr x)
  then show ?case by (cases b) simp_all
next
  case (JArr xs)
  from JArr.prems(3) obtain ys where b: "b = JArr ys" by (cases b) simp_all
  have len: "length xs = length ys"
    using JArr.prems(3) unfolding b by (simp, metis length_map)
  have "map (dumps L) xs = map (dumps L) ys"
  proof (rule nth_equalityI)
    show "length (map (dumps L) xs) = length (map (dumps L) ys)" using len by simp
  next
    fix i assume "i < length (map (dumps L) xs)"
    then have i: "i < length xs" by simp
    have "map content_of xs ! i = map content_of ys ! i" using JArr.prems(3) unfolding b by simp
    then have d: "content_of (xs ! i) = content_of (ys ! i)" using i len by simp
    have "wf_json (xs ! i)" "wf_json (ys ! i)"
      using JArr.prems(1,2) i len unfolding b by (simp_all add: list_all_length)
    then have "dumps L (xs ! i) = dumps L (ys ! i)"
      using JArr.IH[of "xs ! i" "ys ! i"] i d by simp
    then show "map (dumps L) xs ! i = map (dumps L) ys ! i" using i len by simp
  qed
  then show ?case unfolding b by simp
next
  case (JObj xs)
  from JObj.prems(3) obtain ys where b: "b = JObj ys" by (cases b) simp_all
  let ?g = "\<lambda>(k, v). (k, dumps L v)"
  let ?item = "\<lambda>(k, s). encode_basestring L k @ '': '' @ s"
  have dx: "distinct (map fst xs)" and dy: "distinct (map fst ys)"
    using JObj.prems(1,2) unfolding b by simp_all
  have eq: "map_of (map (\<lambda>(k, v). (k, content_of v)) xs) = map_of (map (\<lambda>(k, v). (k, content_of v)) ys)"
    using JObj.prems(3) unfolding b by (simp, metis fmlookup_of_list)
  have IH: "dumps L v = dumps L v'"
    if "(k, v) \<in> set xs" "(k', v') \<in> set ys" "content_of v = content_of v'" for k v k' v'
  proof -
    have "wf_json v" using wf_json_value[OF JObj.prems(1) that(1)] .
    moreover have "wf_json v'" using wf_json_value[OF JObj.prems(2)[unfolded b] that(2)] .
    ultimately show ?thesis using JObj.IH[of "(k, v)" v v'] that by simp
  qed
  have sets: "set (map ?g xs) = set (map ?g ys)"
  proof (intro equalityI subsetI)
    fix p assume "p \<in> set (map ?g xs)"
    then obtain k v where kv: "(k, v) \<in> set xs" "p = (k, dumps L v)" by auto
    from content_of_items_transfer[OF dx dy eq kv(1)]
    obtain v' where v': "(k, v') \<in> set ys" "content_of v' = content_of v" by blast
    have "dumps L v = dumps L v'" using IH[OF kv(1) v'(1)] v'(2) by simp
    then show "p \<in> set (map ?g ys)" using v'(1) kv(2) by force
  next
    fix p assume "p \<in> set (map ?g ys)"
    then obtain k v' where kv: "(k, v') \<in> set ys" "p = (k, dumps L v')" by auto
    from content_of_items_transfer[OF dy dx eq[symmetric] kv(1)]
    obtain v where v: "(k, v) \<in> set xs" "content_of v = content_of v'" by blast
    have "dumps L v = dumps L v'" using IH[OF v(1) kv(1)] v(2) by simp
    then show "p \<in> set (map ?g xs)" using v(1) kv(2) by force
  qed
  have fg: "fst (?g x) = fst x" for x by (cases x) simp
  have kx: "map fst (map ?g xs) = map fst xs" by (simp add: fg)
  have ky: "map fst (map ?g ys) = map fst ys" by (simp add: fg)
  have srt: "sort_key fst (map ?g xs) = sort_key fst (map ?g ys)"
    by (rule sort_key_fst_unique) (simp_all only: kx ky dx dy sets)
  have item: "(\<lambda>(k, v). encode_basestring L k @ '': '' @ dumps L v) = ?item \<circ> ?g"
    by (auto simp: fun_eq_iff)
  have "map (\<lambda>(k, v). encode_basestring L k @ '': '' @ dumps L v) (sort_key fst zs)
        = map ?item (sort_key fst (map ?g zs))" for zs
    by (simp only: item sort_key_fst_map[of ?g, OF fg] map_map)
  then show ?case unfolding b by (simp only: dumps.simps srt)
qed

text \<open>
  Claim C9, as the code has it. Two mission contexts with the same keys and values, in
  whatever order their items were inserted, have the same context hash. The cache key is
  built from the session id and that hash, so two requests of the same session with such
  contexts have the same cache key.
\<close>

theorem same_content_same_cache_key:
  assumes "wf_json (mission_context req1)" and "wf_json (mission_context req2)"
    and "content_of (mission_context req1) = content_of (mission_context req2)"
  shows "context_hash L (mission_context req1) = context_hash L (mission_context req2)
         \<and> (session_id req1 = session_id req2 \<longrightarrow> request_key L req1 = request_key L req2)"
  using dumps_content[OF assms, of L] by (simp add: context_hash_def request_key_def)

text \<open>The same two items in either order, under one session.\<close>

theorem same_content_same_cache_key_witness:
  "\<forall>L. wf_json (JObj [(''goal'', JStr ''orbit''), (''crew'', JInt 3)])
     \<and> wf_json (JObj [(''crew'', JInt 3), (''goal'', JStr ''orbit'')])
     \<and> content_of (JObj [(''goal'', JStr ''orbit''), (''crew'', JInt 3)])
         = content_of (JObj [(''crew'', JInt 3), (''goal'', JStr ''orbit'')])
     \<and> context_hash L (JObj [(''goal'', JStr ''orbit''), (''crew'', JInt 3)])
         = context_hash L (JObj [(''crew'', JInt 3), (''goal'', JStr ''orbit'')])
     \<and> request_key L (request_of ''s1'' (JObj [(''goal'', JStr ''orbit''), (''crew'', JInt 3)]) True)
         = request_key L (request_of ''s1'' (JObj [(''crew'', JInt 3), (''goal'', JStr ''orbit'')]) True)"
proof
  fix L
  have c: "content_of (JObj [(''goal'', JStr ''orbit''), (''crew'', JInt 3)])
         = content_of (JObj [(''crew'', JInt 3), (''goal'', JStr ''orbit'')])"
    by (simp, rule fmap_ext, auto)
  show "wf_json (JObj [(''goal'', JStr ''orbit''), (''crew'', JInt 3)])
     \<and> wf_json (JObj [(''crew'', JInt 3), (''goal'', JStr ''orbit'')])
     \<and> content_of (JObj [(''goal'', JStr ''orbit''), (''crew'', JInt 3)])
         = content_of (JObj [(''crew'', JInt 3), (''goal'', JStr ''orbit'')])
     \<and> context_hash L (JObj [(''goal'', JStr ''orbit''), (''crew'', JInt 3)])
         = context_hash L (JObj [(''crew'', JInt 3), (''goal'', JStr ''orbit'')])
     \<and> request_key L (request_of ''s1'' (JObj [(''goal'', JStr ''orbit''), (''crew'', JInt 3)]) True)
         = request_key L (request_of ''s1'' (JObj [(''crew'', JInt 3), (''goal'', JStr ''orbit'')]) True)"
    using c same_content_same_cache_key
            [of "request_of ''s1'' (JObj [(''goal'', JStr ''orbit''), (''crew'', JInt 3)]) True"
                "request_of ''s1'' (JObj [(''crew'', JInt 3), (''goal'', JStr ''orbit'')]) True" L]
    by simp
qed

text \<open>
  Claim C9 at one context sent under two session ids: the context hash is the same, the
  cache keys differ. The hash alone does not determine the cache key.
\<close>

theorem same_context_other_session:
  "\<forall>L. context_hash L (mission_context (request_of ''s1'' (JObj [(''goal'', JStr ''orbit'')]) True))
         = context_hash L (mission_context (request_of ''s2'' (JObj [(''goal'', JStr ''orbit'')]) True))
     \<and> request_key L (request_of ''s1'' (JObj [(''goal'', JStr ''orbit'')]) True)
         \<noteq> request_key L (request_of ''s2'' (JObj [(''goal'', JStr ''orbit'')]) True)"
  by (simp add: request_key_def cache_key_def)

section \<open>The fan-out\<close>

text \<open>
  Claim C3 at a predictor that times out and at one that answers with status 500: the
  result is \<^verbatim>\<open>None\<close> both times, with no status and no detail to tell them apart.
\<close>

theorem failures_not_classified:
  "snd (fan_out (controller_with_ttl 300)
     (env_of Transport_error (Response 200 (Inr (JObj [(''ok'', JBool True)]))) (Inl OtherError) 0 1))
     = (JNull, JObj [(''ok'', JBool True)])
   \<and> snd (fan_out (controller_with_ttl 300)
     (env_of (Response 500 (Inl JSONDecodeError)) (Response 200 (Inr (JObj [(''ok'', JBool True)])))
        (Inl OtherError) 0 1))
     = (JNull, JObj [(''ok'', JBool True)])"
  by (simp add: fan_out_def call_dr_lucy_def call_dream_commander_def call_predictor_def
      endpoint_set_def)

lemma call_predictor_ok:
  "endpoint_set endpoint \<Longrightarrow>
   call_predictor post endpoint (Response 200 (Inr result)) = ([post], Inr result)"
  by (simp add: call_predictor_def)

lemma call_predictor_none:
  "\<not> (endpoint_set endpoint \<and> (\<exists>result. out = Response 200 (Inr result)))
   \<Longrightarrow> snd (call_predictor post endpoint out) = Inr JNull"
  by (auto simp: call_predictor_def split: http_outcome.splits sum.splits)

lemma call_predictor_returns:
  "snd (call_predictor post endpoint out) = Inr (absorb (snd (call_predictor post endpoint out)))"
  by (auto simp: call_predictor_def split: http_outcome.splits sum.splits)

lemma call_predictor_calls:
  "fst (call_predictor post endpoint out) = (if endpoint_set endpoint then [post] else [])"
  by (simp add: call_predictor_def)

lemma fan_out_results:
  "snd (fan_out ctl env) =
     (absorb (snd (call_dr_lucy ctl env)), absorb (snd (call_dream_commander ctl env)))"
  by (simp add: fan_out_def split_beta)

lemma fan_out_calls:
  "fst (fan_out ctl env) =
     (if endpoint_set (dr_lucy_endpoint ctl) then [Post_dr_lucy] else []) @
     (if endpoint_set (dream_commander_endpoint ctl) then [Post_dream_commander] else [])"
  by (simp add: fan_out_def split_beta call_dr_lucy_def call_dream_commander_def
      call_predictor_calls)

text \<open>
  Claim C3, as the code has it. The fan-out returns exactly one result for each of the two
  predictors and raises nothing: the decoded body when the predictor has an endpoint and
  answered with status 200 and a decodable body, and \<^verbatim>\<open>None\<close> in every other case, whatever
  the failure was.
\<close>

theorem fan_out_one_result_each:
  "snd (call_dr_lucy ctl env) = Inr (fst (snd (fan_out ctl env)))
   \<and> snd (call_dream_commander ctl env) = Inr (snd (snd (fan_out ctl env)))
   \<and> (endpoint_set (dr_lucy_endpoint ctl) \<and> dr_lucy_http env = Response 200 (Inr result)
        \<longrightarrow> fst (snd (fan_out ctl env)) = result)
   \<and> (\<not> (endpoint_set (dr_lucy_endpoint ctl) \<and> (\<exists>result. dr_lucy_http env = Response 200 (Inr result)))
        \<longrightarrow> fst (snd (fan_out ctl env)) = JNull)
   \<and> (endpoint_set (dream_commander_endpoint ctl)
        \<and> dream_commander_http env = Response 200 (Inr result')
        \<longrightarrow> snd (snd (fan_out ctl env)) = result')
   \<and> (\<not> (endpoint_set (dream_commander_endpoint ctl)
           \<and> (\<exists>result. dream_commander_http env = Response 200 (Inr result)))
        \<longrightarrow> snd (snd (fan_out ctl env)) = JNull)"
proof (intro conjI impI)
  show "snd (call_dr_lucy ctl env) = Inr (fst (snd (fan_out ctl env)))"
    using call_predictor_returns by (simp add: fan_out_results call_dr_lucy_def)
  show "snd (call_dream_commander ctl env) = Inr (snd (snd (fan_out ctl env)))"
    using call_predictor_returns by (simp add: fan_out_results call_dream_commander_def)
next
  assume "endpoint_set (dr_lucy_endpoint ctl) \<and> dr_lucy_http env = Response 200 (Inr result)"
  then show "fst (snd (fan_out ctl env)) = result"
    by (simp add: fan_out_results call_dr_lucy_def call_predictor_ok)
next
  assume "\<not> (endpoint_set (dr_lucy_endpoint ctl)
             \<and> (\<exists>result. dr_lucy_http env = Response 200 (Inr result)))"
  then have "snd (call_predictor Post_dr_lucy (dr_lucy_endpoint ctl) (dr_lucy_http env)) = Inr JNull"
    by (rule call_predictor_none)
  then show "fst (snd (fan_out ctl env)) = JNull"
    by (simp add: fan_out_results call_dr_lucy_def)
next
  assume "endpoint_set (dream_commander_endpoint ctl)
          \<and> dream_commander_http env = Response 200 (Inr result')"
  then show "snd (snd (fan_out ctl env)) = result'"
    by (simp add: fan_out_results call_dream_commander_def call_predictor_ok)
next
  assume "\<not> (endpoint_set (dream_commander_endpoint ctl)
             \<and> (\<exists>result. dream_commander_http env = Response 200 (Inr result)))"
  then have "snd (call_predictor Post_dream_commander (dream_commander_endpoint ctl)
                (dream_commander_http env)) = Inr JNull"
    by (rule call_predictor_none)
  then show "snd (snd (fan_out ctl env)) = JNull"
    by (simp add: fan_out_results call_dream_commander_def)
qed

text \<open>One predictor unreachable, the other answering.\<close>

theorem fan_out_one_result_each_witness:
  "snd (call_dr_lucy (controller_with_ttl 300)
      (env_of Transport_error (Response 200 (Inr (JObj [(''ok'', JBool True)]))) (Inl OtherError) 0 1))
     = Inr JNull
   \<and> snd (call_dream_commander (controller_with_ttl 300)
      (env_of Transport_error (Response 200 (Inr (JObj [(''ok'', JBool True)]))) (Inl OtherError) 0 1))
     = Inr (JObj [(''ok'', JBool True)])
   \<and> snd (fan_out (controller_with_ttl 300)
      (env_of Transport_error (Response 200 (Inr (JObj [(''ok'', JBool True)]))) (Inl OtherError) 0 1))
     = (JNull, JObj [(''ok'', JBool True)])"
  using fan_out_one_result_each
          [of "controller_with_ttl 300"
              "env_of Transport_error (Response 200 (Inr (JObj [(''ok'', JBool True)]))) (Inl OtherError) 0 1"
              JNull "JObj [(''ok'', JBool True)]"]
  by (simp add: endpoint_set_def prod_eq_iff)

section \<open>The cache\<close>

lemma claude4_analysis_calls:
  "fst (claude4_analysis L ctl env) =
     (if claude4_enabled ctl \<and> claude4_client ctl then [Claude4_create] else [])"
  by (simp add: claude4_analysis_def)

lemma run_pipeline_calls: "fst (run_pipeline L ctl req env) = calls_made ctl req"
  by (simp add: run_pipeline_def split_beta fan_out_calls claude4_analysis_calls)

lemma coordinate_predictions_miss:
  "cache_lookup ctl st (request_key L req) (lookup_time env) = None
   \<Longrightarrow> coordinate_predictions L ctl req env st = compute_and_store L ctl req env st"
  by (simp add: coordinate_predictions_def)

lemma compute_and_store_calls:
  "calls (snd (compute_and_store L ctl req env st)) = calls st @ fst (run_pipeline L ctl req env)"
  by (simp add: compute_and_store_def Let_def split_beta split: sum.splits)

lemma compute_and_store_response:
  "fst (compute_and_store L ctl req env st) =
     (case snd (run_pipeline L ctl req env) of Inr response \<Rightarrow> response
      | Inl e \<Rightarrow> error_response req env)"
  by (simp add: compute_and_store_def Let_def split_beta split: sum.splits)

lemma compute_and_store_cache:
  "prediction_cache (snd (compute_and_store L ctl req env st)) =
     (case snd (run_pipeline L ctl req env) of
        Inr response \<Rightarrow> (prediction_cache st)(request_key L req \<mapsto> (response, store_time env))
      | Inl e \<Rightarrow> prediction_cache st)"
  by (simp add: compute_and_store_def Let_def split_beta split: sum.splits)



text \<open>
  Claim C5 at a request for which both predictors fail: the response has the status
  \<^verbatim>\<open>failed\<close>, and it is in the cache afterwards.
\<close>

theorem failed_response_is_cached:
  "\<forall>L. pipeline_status (fst (coordinate_predictions L (controller_with_ttl 300)
            (request_of ''s1'' orbit False)
            (env_of Transport_error (Response 503 (Inl JSONDecodeError)) (Inl OtherError) 10 11)
            fresh)) = ''failed''
     \<and> prediction_cache (snd (coordinate_predictions L (controller_with_ttl 300)
            (request_of ''s1'' orbit False)
            (env_of Transport_error (Response 503 (Inl JSONDecodeError)) (Inl OtherError) 10 11)
            fresh)) (request_key L (request_of ''s1'' orbit False))
       = Some (\<lparr> resp_session_id = ''s1'', timestamp = ''2025-01-01T00:00:00+00:00'',
                 time_presser_prediction = JNull, time_liner_prediction = JNull,
                 claude4_analysis_out = JNull, coordination_score = 0,
                 temporal_coherence = 0.5, pipeline_status = ''failed'' \<rparr>, 11)"
  by (simp add: coordinate_predictions_def cache_lookup_def compute_and_store_def
      run_pipeline_def fan_out_def call_dr_lucy_def call_dream_commander_def call_predictor_def
      endpoint_set_def calculate_coordination_score_def confidence_bonus_def
      calculate_temporal_coherence_def split_beta)

text \<open>
  Claim C5, as the code has it. After a cache miss, every response the pipeline composes
  without raising is stored under the request's key with the time of storing, whatever
  its status: \<^verbatim>\<open>failed\<close> when neither predictor succeeded, \<^verbatim>\<open>completed\<close> otherwise.
\<close>

theorem composed_response_is_cached:
  assumes "cache_lookup ctl st (request_key L req) (lookup_time env) = None"
    and "snd (run_pipeline L ctl req env) = Inr response"
  shows "fst (coordinate_predictions L ctl req env st) = response
         \<and> prediction_cache (snd (coordinate_predictions L ctl req env st))
             = (prediction_cache st)(request_key L req \<mapsto> (response, store_time env))
         \<and> (\<not> truthy (fst (snd (fan_out ctl env))) \<and> \<not> truthy (snd (snd (fan_out ctl env)))
              \<longrightarrow> pipeline_status response = ''failed'')
         \<and> (truthy (fst (snd (fan_out ctl env))) \<or> truthy (snd (snd (fan_out ctl env)))
              \<longrightarrow> pipeline_status response = ''completed'')"
proof (intro conjI impI)
  have m: "coordinate_predictions L ctl req env st = compute_and_store L ctl req env st"
    using assms(1) by (rule coordinate_predictions_miss)
  show "fst (coordinate_predictions L ctl req env st) = response"
    using assms(2) by (simp add: m compute_and_store_response)
  show "prediction_cache (snd (coordinate_predictions L ctl req env st))
             = (prediction_cache st)(request_key L req \<mapsto> (response, store_time env))"
    using assms(2) by (simp add: m compute_and_store_cache)
next
  assume "\<not> truthy (fst (snd (fan_out ctl env))) \<and> \<not> truthy (snd (snd (fan_out ctl env)))"
  then show "pipeline_status response = ''failed''"
    using assms(2)
    by (auto simp: run_pipeline_def split_beta split: sum.splits)
next
  assume "truthy (fst (snd (fan_out ctl env))) \<or> truthy (snd (snd (fan_out ctl env)))"
  then show "pipeline_status response = ''completed''"
    using assms(2)
    by (auto simp: run_pipeline_def split_beta split: sum.splits)
qed

lemma run_pipeline_all_down:
  "snd (run_pipeline L (controller_with_ttl 300) (request_of ''s1'' orbit False)
     (env_of Transport_error (Response 503 (Inl JSONDecodeError)) (Inl OtherError) 10 11))
   = Inr \<lparr> resp_session_id = ''s1'', timestamp = ''2025-01-01T00:00:00+00:00'',
           time_presser_prediction = JNull, time_liner_prediction = JNull,
           claude4_analysis_out = JNull, coordination_score = 0,
           temporal_coherence = 0.5, pipeline_status = ''failed'' \<rparr>"
  by (simp add: run_pipeline_def fan_out_def call_dr_lucy_def call_dream_commander_def
      call_predictor_def endpoint_set_def calculate_coordination_score_def confidence_bonus_def
      calculate_temporal_coherence_def split_beta)

text \<open>Both predictors down, on an empty cache.\<close>

theorem composed_response_is_cached_witness:
  "\<forall>L. cache_lookup (controller_with_ttl 300) fresh
         (request_key L (request_of ''s1'' orbit False)) 10 = None
     \<and> \<not> truthy (fst (snd (fan_out (controller_with_ttl 300)
           (env_of Transport_error (Response 503 (Inl JSONDecodeError)) (Inl OtherError) 10 11))))
     \<and> \<not> truthy (snd (snd (fan_out (controller_with_ttl 300)
           (env_of Transport_error (Response 503 (Inl JSONDecodeError)) (Inl OtherError) 10 11))))
     \<and> prediction_cache (snd (coordinate_predictions L (controller_with_ttl 300)
            (request_of ''s1'' orbit False)
            (env_of Transport_error (Response 503 (Inl JSONDecodeError)) (Inl OtherError) 10 11)
            fresh))
       = [request_key L (request_of ''s1'' orbit False) \<mapsto>
           (\<lparr> resp_session_id = ''s1'', timestamp = ''2025-01-01T00:00:00+00:00'',
               time_presser_prediction = JNull, time_liner_prediction = JNull,
               claude4_analysis_out = JNull, coordination_score = 0,
               temporal_coherence = 0.5, pipeline_status = ''failed'' \<rparr>, 11)]"
proof
  fix L
  let ?ctl = "controller_with_ttl 300"
  let ?req = "request_of ''s1'' orbit False"
  let ?env = "env_of Transport_error (Response 503 (Inl JSONDecodeError)) (Inl OtherError) 10 11"
  let ?r = "\<lparr> resp_session_id = ''s1'', timestamp = ''2025-01-01T00:00:00+00:00'',
               time_presser_prediction = JNull, time_liner_prediction = JNull,
               claude4_analysis_out = JNull, coordination_score = 0,
               temporal_coherence = 0.5, pipeline_status = ''failed'' \<rparr>"
  have miss: "cache_lookup ?ctl fresh (request_key L ?req) (lookup_time ?env) = None"
    by (simp add: cache_lookup_def)
  have f: "snd (fan_out ?ctl ?env) = (JNull, JNull)"
    by (simp add: fan_out_def call_dr_lucy_def call_dream_commander_def call_predictor_def
        endpoint_set_def)
  note t = composed_response_is_cached[OF miss run_pipeline_all_down]
  show "cache_lookup ?ctl fresh (request_key L ?req) 10 = None
     \<and> \<not> truthy (fst (snd (fan_out ?ctl ?env)))
     \<and> \<not> truthy (snd (snd (fan_out ?ctl ?env)))
     \<and> prediction_cache (snd (coordinate_predictions L ?ctl ?req ?env fresh))
       = [request_key L ?req \<mapsto> (?r, 11)]"
    using miss f t by simp
qed

section \<open>The error path\<close>

text \<open>
  Claim C10. When the cache check misses and a step of the pipeline raises, the caller
  gets the response with status \<^verbatim>\<open>error\<close>, no predictions, no analysis and both scores
  0.0, and the cache is the one the request found.
\<close>

theorem exception_gives_error_response:
  assumes "cache_lookup ctl st (request_key L req) (lookup_time env) = None"
    and "snd (run_pipeline L ctl req env) = Inl e"
  shows "fst (coordinate_predictions L ctl req env st)
           = \<lparr> resp_session_id = session_id req, timestamp = utc_now env,
               time_presser_prediction = JNull, time_liner_prediction = JNull,
               claude4_analysis_out = JNull, coordination_score = 0,
               temporal_coherence = 0, pipeline_status = ''error'' \<rparr>
         \<and> prediction_cache (snd (coordinate_predictions L ctl req env st)) = prediction_cache st"
  using assms
  by (simp add: coordinate_predictions_miss compute_and_store_response compute_and_store_cache
      error_response_def)

lemma run_pipeline_list_answer:
  "snd (run_pipeline L (controller_with_ttl 300) (request_of ''s1'' orbit False)
     (env_of (Response 200 (Inr (JArr [JInt 1]))) (Response 200 (Inr healthy)) (Inl OtherError) 10 11))
   = Inl AttributeError"
  by (simp add: run_pipeline_def fan_out_def call_dr_lucy_def call_dream_commander_def
      call_predictor_def endpoint_set_def calculate_coordination_score_def confidence_bonus_def
      calculate_temporal_coherence_def prediction_confidence_def split_beta)

text \<open>
  A predictor that answers with a JSON list makes the coherence computation raise
  \<^verbatim>\<open>AttributeError\<close>; the cache keeps its one entry of another session.
\<close>

theorem exception_gives_error_response_witness:
  "\<forall>L. cache_lookup (controller_with_ttl 300)
         (holding ''prediction:other:0'' (error_response (request_of ''other'' orbit False) down) 5)
         (request_key L (request_of ''s1'' orbit False)) 10 = None
     \<and> snd (run_pipeline L (controller_with_ttl 300) (request_of ''s1'' orbit False)
         (env_of (Response 200 (Inr (JArr [JInt 1]))) (Response 200 (Inr healthy))
            (Inl OtherError) 10 11))
       = Inl AttributeError
     \<and> fst (coordinate_predictions L (controller_with_ttl 300) (request_of ''s1'' orbit False)
         (env_of (Response 200 (Inr (JArr [JInt 1]))) (Response 200 (Inr healthy))
            (Inl OtherError) 10 11)
         (holding ''prediction:other:0'' (error_response (request_of ''other'' orbit False) down) 5))
       = \<lparr> resp_session_id = ''s1'', timestamp = ''2025-01-01T00:00:00+00:00'',
           time_presser_prediction = JNull, time_liner_prediction = JNull,
           claude4_analysis_out = JNull, coordination_score = 0,
           temporal_coherence = 0, pipeline_status = ''error'' \<rparr>
     \<and> prediction_cache (snd (coordinate_predictions L (controller_with_ttl 300)
         (request_of ''s1'' orbit False)
         (env_of (Response 200 (Inr (JArr [JInt 1]))) (Response 200 (Inr healthy))
            (Inl OtherError) 10 11)
         (holding ''prediction:other:0'' (error_response (request_of ''other'' orbit False) down) 5)))
       = [''prediction:other:0'' \<mapsto> (error_response (request_of ''other'' orbit False) down, 5)]"
proof
  fix L
  let ?ctl = "controller_with_ttl 300"
  let ?req = "request_of ''s1'' orbit False"
  let ?env = "env_of (Response 200 (Inr (JArr [JInt 1]))) (Response 200 (Inr healthy))
            (Inl OtherError) 10 11"
  let ?st = "holding ''prediction:other:0'' (error_response (request_of ''other'' orbit False) down) 5"
  have miss: "cache_lookup ?ctl ?st (request_key L ?req) (lookup_time ?env) = None"
    by (simp add: cache_lookup_def request_key_def cache_key_def)
  note t = exception_gives_error_response[OF miss run_pipeline_list_answer]
  show "cache_lookup ?ctl ?st (request_key L ?req) 10 = None
     \<and> snd (run_pipeline L ?ctl ?req ?env) = Inl AttributeError
     \<and> fst (coordinate_predictions L ?ctl ?req ?env ?st)
       = \<lparr> resp_session_id = ''s1'', timestamp = ''2025-01-01T00:00:00+00:00'',
           time_presser_prediction = JNull, time_liner_prediction = JNull,
           claude4_analysis_out = JNull, coordination_score = 0,
           temporal_coherence = 0, pipeline_status = ''error'' \<rparr>
     \<and> prediction_cache (snd (coordinate_predictions L ?ctl ?req ?env ?st))
       = [''prediction:other:0'' \<mapsto> (error_response (request_of ''other'' orbit False) down, 5)]"
    using miss t run_pipeline_list_answer[of L] by simp
qed

section \<open>The secondary analysis\<close>

text \<open>
  Claim C7 at a request for which both predictors fail: the Claude API is called all the
  same, and when it replies (here with a text that is not JSON) the analysis is in the
  response, whose status is \<^verbatim>\<open>failed\<close>.
\<close>

theorem analysis_without_successful_backend:
  "(\<forall>L. time_presser_prediction (fst (coordinate_predictions L (controller_with_ttl 300)
            (request_of ''s1'' orbit True)
            (env_of Transport_error (Response 503 (Inl JSONDecodeError)) (Inl OtherError) 10 11)
            fresh)) = JNull
     \<and> time_liner_prediction (fst (coordinate_predictions L (controller_with_ttl 300)
            (request_of ''s1'' orbit True)
            (env_of Transport_error (Response 503 (Inl JSONDecodeError)) (Inl OtherError) 10 11)
            fresh)) = JNull
     \<and> calls (snd (coordinate_predictions L (controller_with_ttl 300)
            (request_of ''s1'' orbit True)
            (env_of Transport_error (Response 503 (Inl JSONDecodeError)) (Inl OtherError) 10 11)
            fresh)) = [Post_dr_lucy, Post_dream_commander, Claude4_create])
   \<and> fst (coordinate_predictions (lib_with (\<lambda>s. Inl JSONDecodeError)) (controller_with_ttl 300)
            (request_of ''s1'' orbit True)
            (env_of Transport_error (Response 503 (Inl JSONDecodeError))
               (Inr ''Both predictors are down.'') 10 11)
            fresh)
       = \<lparr> resp_session_id = ''s1'', timestamp = ''2025-01-01T00:00:00+00:00'',
           time_presser_prediction = JNull, time_liner_prediction = JNull,
           claude4_analysis_out =
             JObj [(''analysis_text'', JStr ''Both predictors are down.''),
                   (''confidence'', JFloat 0.8),
                   (''timestamp'', JStr ''2025-01-01T00:00:01+00:00'')],
           coordination_score = 9 / 25,
           temporal_coherence = 1 / 2, pipeline_status = ''failed'' \<rparr>"
  by (simp add: coordinate_predictions_def cache_lookup_def compute_and_store_def
      run_pipeline_def fan_out_def call_dr_lucy_def call_dream_commander_def call_predictor_def
      endpoint_set_def calculate_coordination_score_def confidence_bonus_def
      calculate_temporal_coherence_def claude4_analysis_def parse_claude_response_def
      split_beta)

lemma run_pipeline_analysis_out:
  "snd (run_pipeline L ctl req env) = Inr response \<Longrightarrow>
   claude4_analysis_out response =
     (if claude4_integration req then snd (claude4_analysis L ctl env) else JNull)"
  by (auto simp: run_pipeline_def split_beta split: sum.splits)

lemma request_key_claude4_integration [simp]:
  "request_key L (req\<lparr>claude4_integration := b\<rparr>) = request_key L req"
  by (simp add: request_key_def)

lemma run_pipeline_analysis_failed:
  assumes "claude4_api env = Inl e"
  shows "snd (run_pipeline L ctl req env)
           = snd (run_pipeline L ctl (req\<lparr>claude4_integration := False\<rparr>) env)"
  using assms
  by (auto simp: run_pipeline_def claude4_analysis_def split_beta split: sum.splits)

text \<open>
  Claim C7, as the code has it. After a cache miss the pipeline attempts the Claude call
  exactly when the request asks for the analysis and Claude is enabled with a client,
  whether or not a predictor succeeded, and the analysis in a composed response is what
  that call and the parsing of its reply gave. When the call raises, the caller gets the
  response it would have got had the analysis been switched off, with no analysis in it.
\<close>

theorem secondary_analysis_gate:
  assumes "cache_lookup ctl st (request_key L req) (lookup_time env) = None"
  shows "calls (snd (coordinate_predictions L ctl req env st)) = calls st @ calls_made ctl req
         \<and> (Claude4_create \<in> set (fst (run_pipeline L ctl req env))
              \<longleftrightarrow> claude4_integration req \<and> claude4_enabled ctl \<and> claude4_client ctl)
         \<and> (snd (run_pipeline L ctl req env) = Inr response \<longrightarrow>
              claude4_analysis_out response =
                (if claude4_integration req \<and> claude4_enabled ctl \<and> claude4_client ctl
                 then (case claude4_api env of
                         Inl e \<Rightarrow> JNull
                       | Inr reply \<Rightarrow>
                           (case parse_claude_response L (fallback_now env) reply of
                              Inr analysis \<Rightarrow> analysis
                            | Inl e \<Rightarrow> JNull))
                 else JNull))
         \<and> (claude4_api env = Inl e \<longrightarrow>
              fst (coordinate_predictions L ctl req env st)
                = fst (coordinate_predictions L ctl (req\<lparr>claude4_integration := False\<rparr>) env st)
              \<and> claude4_analysis_out (fst (coordinate_predictions L ctl req env st)) = JNull)"
proof (intro conjI impI)
  have m: "coordinate_predictions L ctl req env st = compute_and_store L ctl req env st"
    using assms by (rule coordinate_predictions_miss)
  have m': "coordinate_predictions L ctl (req\<lparr>claude4_integration := False\<rparr>) env st
              = compute_and_store L ctl (req\<lparr>claude4_integration := False\<rparr>) env st"
    using assms by (simp add: coordinate_predictions_miss)
  show "calls (snd (coordinate_predictions L ctl req env st)) = calls st @ calls_made ctl req"
    by (simp only: m compute_and_store_calls run_pipeline_calls)
  show "Claude4_create \<in> set (fst (run_pipeline L ctl req env))
          \<longleftrightarrow> claude4_integration req \<and> claude4_enabled ctl \<and> claude4_client ctl"
    by (simp add: run_pipeline_calls)
  {
    assume "snd (run_pipeline L ctl req env) = Inr response"
    then show "claude4_analysis_out response =
                (if claude4_integration req \<and> claude4_enabled ctl \<and> claude4_client ctl
                 then (case claude4_api env of
                         Inl e \<Rightarrow> JNull
                       | Inr reply \<Rightarrow>
                           (case parse_claude_response L (fallback_now env) reply of
                              Inr analysis \<Rightarrow> analysis
                            | Inl e \<Rightarrow> JNull))
                 else JNull)"
      by (simp add: run_pipeline_analysis_out claude4_analysis_def)
  }
  assume a: "claude4_api env = Inl e"
  have r: "snd (run_pipeline L ctl req env)
             = snd (run_pipeline L ctl (req\<lparr>claude4_integration := False\<rparr>) env)"
    using a by (rule run_pipeline_analysis_failed)
  show "fst (coordinate_predictions L ctl req env st)
          = fst (coordinate_predictions L ctl (req\<lparr>claude4_integration := False\<rparr>) env st)"
    by (simp add: m m' compute_and_store_response r error_response_def split: sum.splits)
  have "snd (claude4_analysis L ctl env) = JNull"
    using a by (simp add: claude4_analysis_def)
  then show "claude4_analysis_out (fst (coordinate_predictions L ctl req env st)) = JNull"
    by (cases "snd (run_pipeline L ctl req env)")
      (simp_all add: m compute_and_store_response error_response_def run_pipeline_analysis_out)
qed

text \<open>
  One predictor answering, the other unreachable, the Claude call raising; and both
  predictors unreachable with Claude replying in plain text.
\<close>

theorem secondary_analysis_gate_witness:
  "(\<forall>L. cache_lookup (controller_with_ttl 300) fresh
         (request_key L (request_of ''s1'' orbit True)) 10 = None
     \<and> claude4_api (env_of (Response 200 (Inr healthy)) Transport_error (Inl OtherError) 10 11)
         = Inl OtherError
     \<and> calls (snd (coordinate_predictions L (controller_with_ttl 300)
            (request_of ''s1'' orbit True)
            (env_of (Response 200 (Inr healthy)) Transport_error (Inl OtherError) 10 11)
            fresh)) = [Post_dr_lucy, Post_dream_commander, Claude4_create]
     \<and> fst (coordinate_predictions L (controller_with_ttl 300)
            (request_of ''s1'' orbit True)
            (env_of (Response 200 (Inr healthy)) Transport_error (Inl OtherError) 10 11)
            fresh)
       = \<lparr> resp_session_id = ''s1'', timestamp = ''2025-01-01T00:00:00+00:00'',
           time_presser_prediction = healthy, time_liner_prediction = JNull,
           claude4_analysis_out = JNull, coordination_score = 3 / 10,
           temporal_coherence = 1 / 2, pipeline_status = ''completed'' \<rparr>)
   \<and> snd (run_pipeline (lib_with (\<lambda>s. Inl JSONDecodeError)) (controller_with_ttl 300)
            (request_of ''s1'' orbit True)
            (env_of Transport_error Transport_error (Inr ''Both predictors are down.'') 10 11))
       = Inr \<lparr> resp_session_id = ''s1'', timestamp = ''2025-01-01T00:00:00+00:00'',
               time_presser_prediction = JNull, time_liner_prediction = JNull,
               claude4_analysis_out =
                 JObj [(''analysis_text'', JStr ''Both predictors are down.''),
                       (''confidence'', JFloat 0.8),
                       (''timestamp'', JStr ''2025-01-01T00:00:01+00:00'')],
               coordination_score = 9 / 25,
               temporal_coherence = 1 / 2, pipeline_status = ''failed'' \<rparr>
   \<and> parse_claude_response (lib_with (\<lambda>s. Inl JSONDecodeError)) ''2025-01-01T00:00:01+00:00''
         ''Both predictors are down.''
       = Inr (JObj [(''analysis_text'', JStr ''Both predictors are down.''),
                    (''confidence'', JFloat 0.8),
                    (''timestamp'', JStr ''2025-01-01T00:00:01+00:00'')])"
proof (intro conjI allI)
  fix L
  let ?ctl = "controller_with_ttl 300"
  let ?req = "request_of ''s1'' orbit True"
  let ?env = "env_of (Response 200 (Inr healthy)) Transport_error (Inl OtherError) 10 11"
  have miss: "cache_lookup ?ctl fresh (request_key L ?req) (lookup_time ?env) = None"
    by (simp add: cache_lookup_def)
  have skip: "fst (coordinate_predictions L ?ctl (?req\<lparr>claude4_integration := False\<rparr>) ?env fresh)
       = \<lparr> resp_session_id = ''s1'', timestamp = ''2025-01-01T00:00:00+00:00'',
           time_presser_prediction = healthy, time_liner_prediction = JNull,
           claude4_analysis_out = JNull, coordination_score = 3 / 10,
           temporal_coherence = 1 / 2, pipeline_status = ''completed'' \<rparr>"
    by (simp add: coordinate_predictions_def cache_lookup_def compute_and_store_def
      run_pipeline_def fan_out_def call_dr_lucy_def call_dream_commander_def call_predictor_def
      endpoint_set_def calculate_coordination_score_def confidence_bonus_def
      calculate_temporal_coherence_def split_beta)
  note t = secondary_analysis_gate [OF miss, where e = OtherError]
  show "cache_lookup ?ctl fresh (request_key L ?req) 10 = None" using miss by simp
  show "claude4_api ?env = Inl OtherError" by simp
  show "calls (snd (coordinate_predictions L ?ctl ?req ?env fresh))
         = [Post_dr_lucy, Post_dream_commander, Claude4_create]"
    using t by (simp add: endpoint_set_def)
  have "fst (coordinate_predictions L ?ctl ?req ?env fresh)
          = fst (coordinate_predictions L ?ctl (?req\<lparr>claude4_integration := False\<rparr>) ?env fresh)"
    using t by simp
  then show "fst (coordinate_predictions L ?ctl ?req ?env fresh)
       = \<lparr> resp_session_id = ''s1'', timestamp = ''2025-01-01T00:00:00+00:00'',
           time_presser_prediction = healthy, time_liner_prediction = JNull,
           claude4_analysis_out = JNull, coordination_score = 3 / 10,
           temporal_coherence = 1 / 2, pipeline_status = ''completed'' \<rparr>"
    using skip by simp
next
  show "snd (run_pipeline (lib_with (\<lambda>s. Inl JSONDecodeError)) (controller_with_ttl 300)
            (request_of ''s1'' orbit True)
            (env_of Transport_error Transport_error (Inr ''Both predictors are down.'') 10 11))
       = Inr \<lparr> resp_session_id = ''s1'', timestamp = ''2025-01-01T00:00:00+00:00'',
               time_presser_prediction = JNull, time_liner_prediction = JNull,
               claude4_analysis_out =
                 JObj [(''analysis_text'', JStr ''Both predictors are down.''),
                       (''confidence'', JFloat 0.8),
                       (''timestamp'', JStr ''2025-01-01T00:00:01+00:00'')],
               coordination_score = 9 / 25,
               temporal_coherence = 1 / 2, pipeline_status = ''failed'' \<rparr>"
    by (simp add: run_pipeline_def fan_out_def call_dr_lucy_def call_dream_commander_def
      call_predictor_def endpoint_set_def calculate_coordination_score_def confidence_bonus_def
      calculate_temporal_coherence_def claude4_analysis_def parse_claude_response_def split_beta)
  show "parse_claude_response (lib_with (\<lambda>s. Inl JSONDecodeError)) ''2025-01-01T00:00:01+00:00''
         ''Both predictors are down.''
       = Inr (JObj [(''analysis_text'', JStr ''Both predictors are down.''),
                    (''confidence'', JFloat 0.8),
                    (''timestamp'', JStr ''2025-01-01T00:00:01+00:00'')])"
    by (simp add: parse_claude_response_def)
qed

section \<open>Identical requests\<close>

text \<open>
  A request that runs alone, its two steps one after the other, does what
  \<open>coordinate_predictions\<close> does.
\<close>

lemma single_request_schedule:
  "run_schedule L ctl [(req, env)] [0, 0] st =
     (snd (coordinate_predictions L ctl req env st),
      [Returned (fst (coordinate_predictions L ctl req env st))])"
  by (cases "cache_lookup ctl st (request_key L req) (lookup_time env)")
    (simp_all add: run_schedule_def step_request_def coordinate_predictions_def
      split: prod.splits)

text \<open>
  Claim C2 at two requests with the same cache key that both check the cache before
  either stores: both run the fan-out, and with predictors that answer differently the two
  callers get different responses.
\<close>

theorem concurrent_requests_both_compute:
  "\<forall>L. calls (fst (run_schedule L (controller_with_ttl 300)
           [(request_of ''s1'' orbit False,
             env_of (Response 200 (Inr healthy)) (Response 200 (Inr healthy)) (Inl OtherError) 10 12),
            (request_of ''s1'' orbit False,
             env_of (Response 200 (Inr healthy)) Transport_error (Inl OtherError) 11 13)]
           [0, 1, 0, 1] fresh))
       = [Post_dr_lucy, Post_dream_commander, Post_dr_lucy, Post_dream_commander]
     \<and> snd (run_schedule L (controller_with_ttl 300)
           [(request_of ''s1'' orbit False,
             env_of (Response 200 (Inr healthy)) (Response 200 (Inr healthy)) (Inl OtherError) 10 12),
            (request_of ''s1'' orbit False,
             env_of (Response 200 (Inr healthy)) Transport_error (Inl OtherError) 11 13)]
           [0, 1, 0, 1] fresh)
       = [Returned \<lparr> resp_session_id = ''s1'', timestamp = ''2025-01-01T00:00:00+00:00'',
                      time_presser_prediction = healthy, time_liner_prediction = healthy,
                      claude4_analysis_out = JNull, coordination_score = 3 / 5,
                      temporal_coherence = 1, pipeline_status = ''completed'' \<rparr>,
          Returned \<lparr> resp_session_id = ''s1'', timestamp = ''2025-01-01T00:00:00+00:00'',
                      time_presser_prediction = healthy, time_liner_prediction = JNull,
                      claude4_analysis_out = JNull, coordination_score = 3 / 10,
                      temporal_coherence = 1 / 2, pipeline_status = ''completed'' \<rparr>]"
  by (simp add: run_schedule_def step_request_def cache_lookup_def compute_and_store_def
      run_pipeline_def fan_out_def call_dr_lucy_def call_dream_commander_def call_predictor_def
      endpoint_set_def calculate_coordination_score_def confidence_bonus_def
      calculate_temporal_coherence_def prediction_confidence_def split_beta)

lemma run_schedule_append:
  "run_schedule L ctl reqs (xs @ ys) st =
     foldl (step_request L ctl reqs) (run_schedule L ctl reqs xs st) ys"
  by (simp add: run_schedule_def)

lemma step_request_length:
  "length (snd (step_request L ctl reqs w i)) = length (snd w)"
  by (cases w)
    (auto simp: step_request_def split_beta Let_def split: phase.splits option.splits)

lemma foldl_step_length:
  "length (snd (foldl (step_request L ctl reqs) w schedule)) = length (snd w)"
  by (induction schedule arbitrary: w) (simp_all add: step_request_length)

lemma run_schedule_length:
  "length (snd (run_schedule L ctl reqs schedule st)) = length reqs"
  by (simp add: run_schedule_def foldl_step_length)

lemma step_request_other:
  "i \<noteq> j \<Longrightarrow> snd (step_request L ctl reqs w i) ! j = snd w ! j"
  by (cases w)
    (auto simp: step_request_def split_beta Let_def split: phase.splits option.splits)

lemma foldl_step_untouched:
  "j \<notin> set schedule \<Longrightarrow> snd (foldl (step_request L ctl reqs) w schedule) ! j = snd w ! j"
  by (induction schedule arbitrary: w) (simp_all add: step_request_other)

lemma step_request_returned:
  assumes "snd w ! j = Returned response" "j < length (snd w)"
  shows "snd (step_request L ctl reqs w i) ! j = Returned response"
proof (cases "i = j")
  case True
  then show ?thesis
    using assms by (cases w) (simp add: step_request_def split_beta)
next
  case False
  then show ?thesis using assms by (simp add: step_request_other)
qed

lemma foldl_step_returned:
  "snd w ! j = Returned response \<Longrightarrow> j < length (snd w) \<Longrightarrow>
   snd (foldl (step_request L ctl reqs) w schedule) ! j = Returned response"
  by (induction schedule arbitrary: w)
    (simp_all add: step_request_returned step_request_length)

lemma not_yet_scheduled:
  "j < length reqs \<Longrightarrow> j \<notin> set schedule \<Longrightarrow>
   snd (run_schedule L ctl reqs schedule st) ! j = Arrived"
  by (simp add: run_schedule_def foldl_step_untouched)

text \<open>
  Claim C2, as the code has it. There is no registry of computations in progress:
  requests with the same cache key are deduplicated through the cache of completed
  responses only, and this in every interleaving. Take any schedule and a request that has
  not moved yet. If its cache check finds an unexpired entry under its key, the request
  returns that entry's response, attempts no call and changes nothing, whatever is
  scheduled after it. If its check finds none, the request is in flight whatever the
  others do in between, and its next step runs the pipeline on the state it then finds:
  it attempts its own calls and, when the pipeline composes a response, returns it and
  stores it under the key, replacing what was stored there meanwhile.
\<close>

theorem cache_check_decides:
  assumes "j < length reqs" and "reqs ! j = (req, env)" and "j \<notin> set before"
    and "run_schedule L ctl reqs before st0 = (st1, phases1)"
  shows "(cache_lookup ctl st1 (request_key L req) (lookup_time env) = Some response \<longrightarrow>
            run_schedule L ctl reqs (before @ [j]) st0 = (st1, phases1[j := Returned response])
            \<and> snd (run_schedule L ctl reqs (before @ j # after) st0) ! j = Returned response)
         \<and> (cache_lookup ctl st1 (request_key L req) (lookup_time env) = None
              \<and> j \<notin> set between
              \<and> run_schedule L ctl reqs (before @ j # between) st0 = (st2, phases2) \<longrightarrow>
            phases2 ! j = In_flight
            \<and> run_schedule L ctl reqs (before @ j # between @ [j]) st0
                = (snd (compute_and_store L ctl req env st2),
                   phases2[j := Returned (fst (compute_and_store L ctl req env st2))])
            \<and> calls (snd (compute_and_store L ctl req env st2)) = calls st2 @ calls_made ctl req
            \<and> (snd (run_pipeline L ctl req env) = Inr computed \<longrightarrow>
                 fst (compute_and_store L ctl req env st2) = computed
                 \<and> prediction_cache (snd (compute_and_store L ctl req env st2))
                     = (prediction_cache st2)(request_key L req \<mapsto> (computed, store_time env))))"
proof (intro conjI impI)
  have len1: "length phases1 = length reqs"
    using run_schedule_length [of L ctl reqs before st0] assms(4) by simp
  have arrived: "phases1 ! j = Arrived"
    using not_yet_scheduled [OF assms(1,3), of L ctl st0] assms(4) by simp
  {
    assume hit: "cache_lookup ctl st1 (request_key L req) (lookup_time env) = Some response"
    show one: "run_schedule L ctl reqs (before @ [j]) st0
                 = (st1, phases1[j := Returned response])"
      using assms(1,2,4) len1 arrived hit
      by (simp add: run_schedule_append step_request_def)
    have "run_schedule L ctl reqs (before @ j # after) st0
            = foldl (step_request L ctl reqs) (st1, phases1[j := Returned response]) after"
      using one run_schedule_append [of L ctl reqs "before @ [j]" after st0] by simp
    moreover have "snd (st1, phases1[j := Returned response]) ! j = Returned response"
      using assms(1) len1 by simp
    moreover have "j < length (snd (st1, phases1[j := Returned response]))"
      using assms(1) len1 by simp
    ultimately show "snd (run_schedule L ctl reqs (before @ j # after) st0) ! j = Returned response"
      by (simp only: foldl_step_returned)
  }
  assume miss: "cache_lookup ctl st1 (request_key L req) (lookup_time env) = None
              \<and> j \<notin> set between
              \<and> run_schedule L ctl reqs (before @ j # between) st0 = (st2, phases2)"
  have one: "run_schedule L ctl reqs (before @ [j]) st0 = (st1, phases1[j := In_flight])"
    using assms(1,2,4) len1 arrived miss
    by (simp add: run_schedule_append step_request_def)
  have two: "run_schedule L ctl reqs (before @ j # between) st0
               = foldl (step_request L ctl reqs) (st1, phases1[j := In_flight]) between"
    using one run_schedule_append [of L ctl reqs "before @ [j]" between st0] by simp
  have "snd (foldl (step_request L ctl reqs) (st1, phases1[j := In_flight]) between) ! j
          = snd (st1, phases1[j := In_flight]) ! j"
    using miss by (intro foldl_step_untouched) simp
  moreover have "foldl (step_request L ctl reqs) (st1, phases1[j := In_flight]) between
                   = (st2, phases2)"
    using two miss by simp
  ultimately show flight: "phases2 ! j = In_flight"
    using assms(1) len1 by simp
  have len2: "length phases2 = length reqs"
    using run_schedule_length [of L ctl reqs "before @ j # between" st0] miss by simp
  have "run_schedule L ctl reqs (before @ j # between @ [j]) st0
          = step_request L ctl reqs (st2, phases2) j"
    using run_schedule_append [of L ctl reqs "before @ j # between" "[j]" st0] miss by simp
  then show "run_schedule L ctl reqs (before @ j # between @ [j]) st0
                = (snd (compute_and_store L ctl req env st2),
                   phases2[j := Returned (fst (compute_and_store L ctl req env st2))])"
    using assms(1,2) len2 flight by (simp add: step_request_def split_beta)
  show "calls (snd (compute_and_store L ctl req env st2)) = calls st2 @ calls_made ctl req"
    by (simp only: compute_and_store_calls run_pipeline_calls)
  {
    assume ok: "snd (run_pipeline L ctl req env) = Inr computed"
    show "fst (compute_and_store L ctl req env st2) = computed"
      using ok by (simp add: compute_and_store_response)
    show "prediction_cache (snd (compute_and_store L ctl req env st2))
            = (prediction_cache st2)(request_key L req \<mapsto> (computed, store_time env))"
      using ok by (simp add: compute_and_store_cache)
  }
qed

text \<open>
  Three requests of one session. The third checks the cache after the first two have both
  computed and stored: it gets the response stored last, the second request's. The second
  checks while the first is in flight: it misses, and computes after the first has stored.
\<close>

theorem cache_check_decides_witness:
  "\<forall>L. cache_lookup (controller_with_ttl 300)
         (fst (run_schedule L (controller_with_ttl 300)
           [(request_of ''s1'' orbit False,
             env_of (Response 200 (Inr healthy)) (Response 200 (Inr healthy)) (Inl OtherError) 10 12),
            (request_of ''s1'' orbit False,
             env_of (Response 200 (Inr healthy)) Transport_error (Inl OtherError) 11 13),
            (request_of ''s1'' orbit False,
             env_of Transport_error Transport_error (Inl OtherError) 20 21)]
           [0, 1, 0, 1] fresh))
         (request_key L (request_of ''s1'' orbit False)) 20
       = Some \<lparr> resp_session_id = ''s1'', timestamp = ''2025-01-01T00:00:00+00:00'',
                time_presser_prediction = healthy, time_liner_prediction = JNull,
                claude4_analysis_out = JNull, coordination_score = 3 / 10,
                temporal_coherence = 1 / 2, pipeline_status = ''completed'' \<rparr>
     \<and> snd (run_schedule L (controller_with_ttl 300)
           [(request_of ''s1'' orbit False,
             env_of (Response 200 (Inr healthy)) (Response 200 (Inr healthy)) (Inl OtherError) 10 12),
            (request_of ''s1'' orbit False,
             env_of (Response 200 (Inr healthy)) Transport_error (Inl OtherError) 11 13),
            (request_of ''s1'' orbit False,
             env_of Transport_error Transport_error (Inl OtherError) 20 21)]
           ([0, 1, 0, 1] @ 2 # [2]) fresh) ! 2
       = Returned \<lparr> resp_session_id = ''s1'', timestamp = ''2025-01-01T00:00:00+00:00'',
                time_presser_prediction = healthy, time_liner_prediction = JNull,
                claude4_analysis_out = JNull, coordination_score = 3 / 10,
                temporal_coherence = 1 / 2, pipeline_status = ''completed'' \<rparr>
     \<and> cache_lookup (controller_with_ttl 300)
         (fst (run_schedule L (controller_with_ttl 300)
           [(request_of ''s1'' orbit False,
             env_of (Response 200 (Inr healthy)) (Response 200 (Inr healthy)) (Inl OtherError) 10 12),
            (request_of ''s1'' orbit False,
             env_of (Response 200 (Inr healthy)) Transport_error (Inl OtherError) 11 13),
            (request_of ''s1'' orbit False,
             env_of Transport_error Transport_error (Inl OtherError) 20 21)]
           [0] fresh))
         (request_key L (request_of ''s1'' orbit False)) 11
       = None
     \<and> snd (run_schedule L (controller_with_ttl 300)
           [(request_of ''s1'' orbit False,
             env_of (Response 200 (Inr healthy)) (Response 200 (Inr healthy)) (Inl OtherError) 10 12),
            (request_of ''s1'' orbit False,
             env_of (Response 200 (Inr healthy)) Transport_error (Inl OtherError) 11 13),
            (request_of ''s1'' orbit False,
             env_of Transport_error Transport_error (Inl OtherError) 20 21)]
           ([0] @ 1 # [0]) fresh) ! 1
       = In_flight
     \<and> calls (fst (run_schedule L (controller_with_ttl 300)
           [(request_of ''s1'' orbit False,
             env_of (Response 200 (Inr healthy)) (Response 200 (Inr healthy)) (Inl OtherError) 10 12),
            (request_of ''s1'' orbit False,
             env_of (Response 200 (Inr healthy)) Transport_error (Inl OtherError) 11 13),
            (request_of ''s1'' orbit False,
             env_of Transport_error Transport_error (Inl OtherError) 20 21)]
           ([0] @ 1 # [0] @ [1]) fresh))
       = [Post_dr_lucy, Post_dream_commander, Post_dr_lucy, Post_dream_commander]"
proof (intro allI)
  fix L
  let ?ctl = "controller_with_ttl 300"
  let ?req = "request_of ''s1'' orbit False"
  let ?envA = "env_of (Response 200 (Inr healthy)) (Response 200 (Inr healthy)) (Inl OtherError) 10 12"
  let ?envB = "env_of (Response 200 (Inr healthy)) Transport_error (Inl OtherError) 11 13"
  let ?envC = "env_of Transport_error Transport_error (Inl OtherError) 20 21"
  let ?reqs = "[(?req, ?envA), (?req, ?envB), (?req, ?envC)]"
  let ?rB = "\<lparr> resp_session_id = ''s1'', timestamp = ''2025-01-01T00:00:00+00:00'',
                time_presser_prediction = healthy, time_liner_prediction = JNull,
                claude4_analysis_out = JNull, coordination_score = 3 / 10,
                temporal_coherence = 1 / 2, pipeline_status = ''completed'' \<rparr>"
  note defs = run_schedule_def step_request_def cache_lookup_def compute_and_store_def
      run_pipeline_def fan_out_def call_dr_lucy_def call_dream_commander_def call_predictor_def
      endpoint_set_def calculate_coordination_score_def confidence_bonus_def
      calculate_temporal_coherence_def prediction_confidence_def split_beta
  have hit: "cache_lookup ?ctl (fst (run_schedule L ?ctl ?reqs [0, 1, 0, 1] fresh))
               (request_key L ?req) 20 = Some ?rB"
    by (simp add: defs)
  have miss: "cache_lookup ?ctl (fst (run_schedule L ?ctl ?reqs [0] fresh))
               (request_key L ?req) 11 = None"
    by (simp add: defs)
  have calls3: "calls (fst (run_schedule L ?ctl ?reqs ([0] @ 1 # [0]) fresh))
                  = [Post_dr_lucy, Post_dream_commander]"
    by (simp add: defs)
  have j2: "(2::nat) < length ?reqs" "?reqs ! 2 = (?req, ?envC)" "(2::nat) \<notin> set [0, 1, 0, 1]"
    by simp_all
  have j1: "(1::nat) < length ?reqs" "?reqs ! 1 = (?req, ?envB)" "(1::nat) \<notin> set [0]"
    by simp_all
  have p4: "run_schedule L ?ctl ?reqs [0, 1, 0, 1] fresh
              = (fst (run_schedule L ?ctl ?reqs [0, 1, 0, 1] fresh),
                 snd (run_schedule L ?ctl ?reqs [0, 1, 0, 1] fresh))"
    by simp
  have p1: "run_schedule L ?ctl ?reqs [0] fresh
              = (fst (run_schedule L ?ctl ?reqs [0] fresh),
                 snd (run_schedule L ?ctl ?reqs [0] fresh))"
    by simp
  have p3: "run_schedule L ?ctl ?reqs ([0] @ 1 # [0]) fresh
              = (fst (run_schedule L ?ctl ?reqs ([0] @ 1 # [0]) fresh),
                 snd (run_schedule L ?ctl ?reqs ([0] @ 1 # [0]) fresh))"
    by simp
  note served =
    cache_check_decides [where after = "[2]", OF j2 p4, THEN conjunct1, rule_format, THEN conjunct2]
  note computed = cache_check_decides [OF j1 p1, THEN conjunct2, rule_format]
  have a: "snd (run_schedule L ?ctl ?reqs ([0, 1, 0, 1] @ 2 # [2]) fresh) ! 2 = Returned ?rB"
  proof (rule served)
    show "cache_lookup ?ctl (fst (run_schedule L ?ctl ?reqs [0, 1, 0, 1] fresh))
            (request_key L ?req) (lookup_time ?envC) = Some ?rB"
      using hit by simp
  qed
  have pre: "cache_lookup ?ctl (fst (run_schedule L ?ctl ?reqs [0] fresh))
               (request_key L ?req) (lookup_time ?envB) = None
             \<and> (1::nat) \<notin> set [0]
             \<and> run_schedule L ?ctl ?reqs ([0] @ 1 # [0]) fresh
                 = (fst (run_schedule L ?ctl ?reqs ([0] @ 1 # [0]) fresh),
                    snd (run_schedule L ?ctl ?reqs ([0] @ 1 # [0]) fresh))"
    using miss by simp
  note c = computed [OF pre]
  have b: "snd (run_schedule L ?ctl ?reqs ([0] @ 1 # [0]) fresh) ! 1 = In_flight"
    using c by simp
  have "calls (fst (run_schedule L ?ctl ?reqs ([0] @ 1 # [0] @ [1]) fresh))
          = calls (fst (run_schedule L ?ctl ?reqs ([0] @ 1 # [0]) fresh)) @ calls_made ?ctl ?req"
    using c by simp
  then have d: "calls (fst (run_schedule L ?ctl ?reqs ([0] @ 1 # [0] @ [1]) fresh))
          = [Post_dr_lucy, Post_dream_commander, Post_dr_lucy, Post_dream_commander]"
    by (simp only: calls3) (simp add: endpoint_set_def)
  show "cache_lookup ?ctl (fst (run_schedule L ?ctl ?reqs [0, 1, 0, 1] fresh))
               (request_key L ?req) 20 = Some ?rB
     \<and> snd (run_schedule L ?ctl ?reqs ([0, 1, 0, 1] @ 2 # [2]) fresh) ! 2 = Returned ?rB
     \<and> cache_lookup ?ctl (fst (run_schedule L ?ctl ?reqs [0] fresh))
               (request_key L ?req) 11 = None
     \<and> snd (run_schedule L ?ctl ?reqs ([0] @ 1 # [0]) fresh) ! 1 = In_flight
     \<and> calls (fst (run_schedule L ?ctl ?reqs ([0] @ 1 # [0] @ [1]) fresh))
       = [Post_dr_lucy, Post_dream_commander, Post_dr_lucy, Post_dream_commander]"
    using hit a miss b d by (intro conjI)
qed

section \<open>Input normalisation never raises\<close>

text \<open>
  Claim C6 at an input that is neither a dictionary nor a string: it comes back under the
  key \<^verbatim>\<open>scenario\<close>, not \<^verbatim>\<open>raw\<close>.
\<close>

theorem other_input_wrapped_as_scenario:
  "\<forall>L. normalize_input L (JArr [JInt 1, JInt 2])
         = Inr (JObj [(''scenario'', JStr (py_str L (JArr [JInt 1, JInt 2])))])
     \<and> normalize_input L (JArr [JInt 1, JInt 2])
         \<noteq> Inr (JObj [(''raw'', JStr (py_str L (JArr [JInt 1, JInt 2])))])"
  by (simp add: normalize_input_def normalize_input_try_def)

text \<open>
  Claim C6, as the code has it. \<^verbatim>\<open>normalize_input\<close> returns for every input. A dictionary
  comes back as it is and a string that is JSON comes back parsed. A string that is not
  JSON comes back as \<^verbatim>\<open>{"scenario": <the string>}\<close>, any other value as
  \<^verbatim>\<open>{"scenario": str(<the value>)}\<close>, and when the parser raises anything but a decode
  error the result is \<^verbatim>\<open>{"scenario": "unknown"}\<close>.
\<close>

theorem normalize_input_never_raises:
  "(\<exists>v. normalize_input L data = Inr v)
   \<and> normalize_input L (JObj kvs) = Inr (JObj kvs)
   \<and> (json_loads L s = Inr parsed \<longrightarrow> normalize_input L (JStr s) = Inr parsed)
   \<and> (json_loads L s = Inl JSONDecodeError \<longrightarrow>
        normalize_input L (JStr s) = Inr (JObj [(''scenario'', JStr s)]))
   \<and> (json_loads L s = Inl e \<and> e \<noteq> JSONDecodeError \<longrightarrow>
        normalize_input L (JStr s) = Inr (JObj [(''scenario'', JStr ''unknown'')]))
   \<and> ((\<forall>kvs. data \<noteq> JObj kvs) \<and> (\<forall>s. data \<noteq> JStr s) \<longrightarrow>
        normalize_input L data = Inr (JObj [(''scenario'', JStr (py_str L data))]))"
proof (intro conjI impI)
  show "\<exists>v. normalize_input L data = Inr v"
    by (simp add: normalize_input_def split: sum.splits)
  show "normalize_input L (JObj kvs) = Inr (JObj kvs)"
    by (simp add: normalize_input_def normalize_input_try_def)
next
  assume "json_loads L s = Inr parsed"
  then show "normalize_input L (JStr s) = Inr parsed"
    by (simp add: normalize_input_def normalize_input_try_def)
next
  assume "json_loads L s = Inl JSONDecodeError"
  then show "normalize_input L (JStr s) = Inr (JObj [(''scenario'', JStr s)])"
    by (simp add: normalize_input_def normalize_input_try_def)
next
  assume "json_loads L s = Inl e \<and> e \<noteq> JSONDecodeError"
  then show "normalize_input L (JStr s) = Inr (JObj [(''scenario'', JStr ''unknown'')])"
    by (cases e) (simp_all add: normalize_input_def normalize_input_try_def)
next
  assume "(\<forall>kvs. data \<noteq> JObj kvs) \<and> (\<forall>s. data \<noteq> JStr s)"
  then show "normalize_input L data = Inr (JObj [(''scenario'', JStr (py_str L data))])"
    by (cases data) (simp_all add: normalize_input_def normalize_input_try_def)
qed

text \<open>A JSON string, a plain text, a text the parser gives up on, and a boolean.\<close>

theorem normalize_input_never_raises_witness:
  "normalize_input (lib_with (\<lambda>s. Inr (JArr []))) (JStr ''[]'') = Inr (JArr [])
   \<and> normalize_input (lib_with (\<lambda>s. Inl JSONDecodeError)) (JStr ''launch at dawn'')
       = Inr (JObj [(''scenario'', JStr ''launch at dawn'')])
   \<and> normalize_input (lib_with (\<lambda>s. Inl OtherError)) (JStr ''[[[['')
       = Inr (JObj [(''scenario'', JStr ''unknown'')])
   \<and> normalize_input (lib_with (\<lambda>s. Inl OtherError)) (JBool True)
       = Inr (JObj [(''scenario'', JStr ''value'')])"
  using normalize_input_never_raises
          [of "lib_with (\<lambda>s. Inr (JArr []))" JNull "[]" "''[]''" "JArr []" OtherError]
        normalize_input_never_raises
          [of "lib_with (\<lambda>s. Inl JSONDecodeError)" JNull "[]" "''launch at dawn''" JNull OtherError]
        normalize_input_never_raises
          [of "lib_with (\<lambda>s. Inl OtherError)" "JBool True" "[]" "''[[[[''" JNull OtherError]
  by simp

end
